theory Spec2Isabelle
  imports Complex_Main
begin

section \<open>Effects: external calls, thrown errors, the call trace\<close>

text \<open>
  The server talks to three collaborators: the embedding service
  (\<open>openai.createEmbedding\<close>), the relational store (\<open>pgClient.query\<close>) and the
  completion service (\<open>anthropic.messages.create\<close>). Every \<open>await\<close> of the source is a
  step that either yields a value or throws; a thrown error is represented by its
  \<open>message\<close>, the only part of it the source reads (\<open>err.message\<close>). A computation is the
  list of external calls it made, in order, together with its outcome.

  JavaScript strings are modelled as \<open>string\<close>, one \<open>char\<close> per code unit below 256.
\<close>

type_synonym message = string

type_synonym vector = "real list"

text \<open>
  A value of the store's type \<open>float8\<close> as it reaches JavaScript: a number, or \<open>NaN\<close>.
\<close>

datatype float8 = Number real | NaN

datatype db_query =
    RankTables vector
  | RankColumns vector
  | SchemaTables
  | SchemaColumns
  | Index_RankColumns vector

datatype call =
    Embedding string
  | Query db_query
  | Statement string
  | Completion string

type_synonym 'a io = "call list \<times> (message + 'a)"

definition resolve :: "'a \<Rightarrow> 'a io" where
  "resolve x = ([], Inr x)"

definition throw :: "message \<Rightarrow> 'a io" where
  "throw e = ([], Inl e)"

definition external :: "call \<Rightarrow> message + 'a \<Rightarrow> 'a io" where
  "external c r = ([c], r)"

definition await :: "'a io \<Rightarrow> ('a \<Rightarrow> 'b io) \<Rightarrow> 'b io" where
  "await m f =
     (case m of
        (t, Inl e) \<Rightarrow> (t, Inl e)
      | (t, Inr x) \<Rightarrow> (case f x of (t', r) \<Rightarrow> (t @ t', r)))"

definition try_catch :: "'a io \<Rightarrow> (message \<Rightarrow> 'a io) \<Rightarrow> 'a io" where
  "try_catch m h =
     (case m of
        (t, Inl e) \<Rightarrow> (case h e of (t', r) \<Rightarrow> (t @ t', r))
      | (t, Inr x) \<Rightarrow> (t, Inr x))"

definition calls :: "'a io \<Rightarrow> call list" where
  "calls m = fst m"

definition outcome :: "'a io \<Rightarrow> message + 'a" where
  "outcome m = snd m"

fun is_statement :: "call \<Rightarrow> bool" where
  "is_statement (Statement s) = True"
| "is_statement _ = False"

fun is_completion :: "call \<Rightarrow> bool" where
  "is_completion (Completion p) = True"
| "is_completion _ = False"

section \<open>The relational store and the services\<close>

text \<open>
  Rows of the two metadata tables, as the DDL shipped with the repository declares them:
  \<open>table_name\<close>, \<open>column_name\<close> and \<open>data_type\<close> are \<open>NOT NULL\<close>, every other column
  may be \<open>NULL\<close> (\<open>None\<close>), the embedding included: the start-up code looks for rows
  \<open>WHERE embedding IS NULL\<close>. The two boolean columns are only ever tested for truthiness,
  where \<open>NULL\<close> behaves as \<open>false\<close>, so they are \<open>bool\<close>.
\<close>

record table_meta =
  tm_table_name :: string
  tm_description :: "string option"
  tm_primary_key_column :: "string option"
  tm_embedding :: "vector option"

record column_meta =
  cm_table_name :: string
  cm_column_name :: string
  cm_data_type :: string
  cm_description :: "string option"
  cm_is_primary_key :: bool
  cm_is_foreign_key :: bool
  cm_references_table :: "string option"
  cm_references_column :: "string option"
  cm_embedding :: "vector option"

type_synonym row = "(string \<times> string) list"

text \<open>
  The world of one request. \<open>createEmbedding w text\<close> is what
  \<open>(await openai.createEmbedding(...)).data.data[0].embedding\<close> evaluates to: \<open>Inl\<close> when
  the call or the property access throws, \<open>Inr None\<close> for a falsy value, \<open>Inr (Some v)\<close>
  for a vector. \<open>cosine_distance\<close> is the operator \<open><=>\<close> of the store's vector extension;
  its result is a \<open>float8\<close>, \<open>NaN\<close> included. \<open>scan_order w query\<close> is the order in which
  the store happens to read the rows of a table when it answers \<open>query\<close>, as a list of row
  positions: no query of the source fixes the order of rows that its \<open>ORDER BY\<close> leaves tied.
  \<open>query_fault\<close> says whether the store fails one of the fixed metadata queries (connection
  lost, malformed parameter, missing relation). \<open>run_statement\<close> is \<open>pgClient.query\<close> on an
  arbitrary statement, and \<open>messages_create w prompt\<close> is
  \<open>(await anthropic.messages.create(...)).content[0].text\<close>.

  Within one request a collaborator answers the same call in the same way: the metadata
  queries only read, and the one statement that may write is the last call of a request.
\<close>

record world =
  createEmbedding :: "string \<Rightarrow> message + vector option"
  table_metadata :: "table_meta list"
  column_metadata :: "column_meta list"
  cosine_distance :: "vector \<Rightarrow> vector \<Rightarrow> float8"
  scan_order :: "db_query \<Rightarrow> nat list"
  query_fault :: "db_query \<Rightarrow> message option"
  run_statement :: "string \<Rightarrow> message + row list"
  messages_create :: "string \<Rightarrow> message + string"

section \<open>Similarity ranking\<close>

text \<open>Rows returned by the ranking queries of \<open>findSimilarTables\<close> and \<open>findSimilarColumns\<close>.\<close>

record ranked_table =
  rt_table_name :: string
  rt_description :: "string option"
  rt_similarity :: "float8 option"

record ranked_column =
  rc_table_name :: string
  rc_column_name :: string
  rc_description :: "string option"
  rc_data_type :: string
  rc_is_primary_key :: bool
  rc_is_foreign_key :: bool
  rc_references_table :: "string option"
  rc_references_column :: "string option"
  rc_similarity :: "float8 option"

text \<open>The narrower row of \<open>findSimilarColumns\<close> in \<open>src/Index.js\<close>.\<close>

record Index_ranked_column =
  irc_table_name :: string
  irc_column_name :: string
  irc_description :: "string option"
  irc_similarity :: "float8 option"

text \<open>
  \<open>1 - (embedding <=> $1::vector) as similarity\<close>: \<open>NULL\<close> for a row without embedding,
  \<open>NaN\<close> when the distance is \<open>NaN\<close>.
\<close>

fun one_minus :: "float8 \<Rightarrow> float8" where
  "one_minus (Number d) = Number (1 - d)"
| "one_minus NaN = NaN"

definition similarity_to :: "world \<Rightarrow> vector \<Rightarrow> vector option \<Rightarrow> float8 option" where
  "similarity_to w q emb =
     (case emb of None \<Rightarrow> None | Some e \<Rightarrow> Some (one_minus (cosine_distance w e q)))"

text \<open>
  \<open>ORDER BY similarity DESC\<close>: larger values first. \<open>NULL\<close> sorts as larger than any
  value, so first; \<open>NaN\<close> sorts as larger than any number, so after \<open>NULL\<close> and before
  the numbers. \<open>sorts_before a b\<close> says that a row with key \<open>a\<close> may stand before a row
  with key \<open>b\<close>.
\<close>

fun sorts_before :: "float8 option \<Rightarrow> float8 option \<Rightarrow> bool" where
  "sorts_before None b = True"
| "sorts_before (Some x) None = False"
| "sorts_before (Some NaN) (Some y) = True"
| "sorts_before (Some (Number x)) (Some NaN) = False"
| "sorts_before (Some (Number x)) (Some (Number y)) = (y \<le> x)"

text \<open>
  The rows of a table in the order in which the store reads them: first the rows at the
  positions that \<open>scan_order\<close> names (each once, positions outside the table skipped), then
  the remaining rows. The sort below keeps tied rows in that order, so that every order of
  tied rows is the answer of some store.
\<close>

definition arrange :: "nat list \<Rightarrow> 'a list \<Rightarrow> 'a list" where
  "arrange order rows =
     (let picked = remdups (filter (\<lambda>i. i < length rows) order)
      in map (nth rows) picked
         @ map (nth rows) (filter (\<lambda>i. i \<notin> set picked) [0..<length rows]))"

fun insert_desc :: "('a \<Rightarrow> float8 option) \<Rightarrow> 'a \<Rightarrow> 'a list \<Rightarrow> 'a list" where
  "insert_desc key x [] = [x]"
| "insert_desc key x (y # ys) =
     (if sorts_before (key x) (key y) then x # y # ys else y # insert_desc key x ys)"

definition order_by_desc :: "('a \<Rightarrow> float8 option) \<Rightarrow> 'a list \<Rightarrow> 'a list" where
  "order_by_desc key xs = foldr (insert_desc key) xs []"

definition select_table :: "world \<Rightarrow> vector \<Rightarrow> table_meta \<Rightarrow> ranked_table" where
  "select_table w q r =
     \<lparr>rt_table_name = tm_table_name r,
      rt_description = tm_description r,
      rt_similarity = similarity_to w q (tm_embedding r)\<rparr>"

definition select_column :: "world \<Rightarrow> vector \<Rightarrow> column_meta \<Rightarrow> ranked_column" where
  "select_column w q r =
     \<lparr>rc_table_name = cm_table_name r,
      rc_column_name = cm_column_name r,
      rc_description = cm_description r,
      rc_data_type = cm_data_type r,
      rc_is_primary_key = cm_is_primary_key r,
      rc_is_foreign_key = cm_is_foreign_key r,
      rc_references_table = cm_references_table r,
      rc_references_column = cm_references_column r,
      rc_similarity = similarity_to w q (cm_embedding r)\<rparr>"

definition Index_select_column :: "world \<Rightarrow> vector \<Rightarrow> column_meta \<Rightarrow> Index_ranked_column" where
  "Index_select_column w q r =
     \<lparr>irc_table_name = cm_table_name r,
      irc_column_name = cm_column_name r,
      irc_description = cm_description r,
      irc_similarity = similarity_to w q (cm_embedding r)\<rparr>"

text \<open>The store's answer to each ranking query: \<open>... ORDER BY similarity DESC LIMIT k\<close>.\<close>

definition pg_rank_tables :: "world \<Rightarrow> vector \<Rightarrow> message + ranked_table list" where
  "pg_rank_tables w q =
     (case query_fault w (RankTables q) of
        Some m \<Rightarrow> Inl m
      | None \<Rightarrow>
          Inr (take 5 (order_by_desc rt_similarity
                 (map (select_table w q)
                    (arrange (scan_order w (RankTables q)) (table_metadata w))))))"

definition pg_rank_columns :: "world \<Rightarrow> vector \<Rightarrow> message + ranked_column list" where
  "pg_rank_columns w q =
     (case query_fault w (RankColumns q) of
        Some m \<Rightarrow> Inl m
      | None \<Rightarrow>
          Inr (take 10 (order_by_desc rc_similarity
                 (map (select_column w q)
                    (arrange (scan_order w (RankColumns q)) (column_metadata w))))))"

definition Index_pg_rank_columns :: "world \<Rightarrow> vector \<Rightarrow> message + Index_ranked_column list" where
  "Index_pg_rank_columns w q =
     (case query_fault w (Index_RankColumns q) of
        Some m \<Rightarrow> Inl m
      | None \<Rightarrow>
          Inr (take 5 (order_by_desc irc_similarity
                 (map (Index_select_column w q)
                    (arrange (scan_order w (Index_RankColumns q)) (column_metadata w))))))"

text \<open>\<open>generateEmbedding\<close>: any error of the service is caught and becomes \<open>null\<close>.\<close>

definition generateEmbedding :: "world \<Rightarrow> string \<Rightarrow> vector option io" where
  "generateEmbedding w text =
     try_catch (external (Embedding text) (createEmbedding w text)) (\<lambda>err. resolve None)"

definition findSimilarTables :: "world \<Rightarrow> string \<Rightarrow> ranked_table list io" where
  "findSimilarTables w query =
     try_catch
       (await (generateEmbedding w query) (\<lambda>queryEmbedding.
          case queryEmbedding of
            None \<Rightarrow> resolve []
          | Some q \<Rightarrow> external (Query (RankTables q)) (pg_rank_tables w q)))
       (\<lambda>err. resolve [])"

definition findSimilarColumns :: "world \<Rightarrow> string \<Rightarrow> ranked_column list io" where
  "findSimilarColumns w query =
     try_catch
       (await (generateEmbedding w query) (\<lambda>queryEmbedding.
          case queryEmbedding of
            None \<Rightarrow> resolve []
          | Some q \<Rightarrow> external (Query (RankColumns q)) (pg_rank_columns w q)))
       (\<lambda>err. resolve [])"

definition Index_findSimilarColumns :: "world \<Rightarrow> string \<Rightarrow> Index_ranked_column list io" where
  "Index_findSimilarColumns w query =
     try_catch
       (await (generateEmbedding w query) (\<lambda>queryEmbedding.
          case queryEmbedding of
            None \<Rightarrow> resolve []
          | Some q \<Rightarrow> external (Query (Index_RankColumns q)) (Index_pg_rank_columns w q)))
       (\<lambda>err. resolve [])"

section \<open>JavaScript strings and plain objects\<close>

text \<open>
  \<open>String.prototype.trim\<close> removes white space and line terminators from both ends; below
  code unit 256 these are tab, line feed, vertical tab, form feed, carriage return, space and
  the no-break space.
\<close>

definition js_whitespace :: "char \<Rightarrow> bool" where
  "js_whitespace c = (of_char c \<in> {9, 10, 11, 12, 13, 32, 160 :: nat})"

definition trim :: "string \<Rightarrow> string" where
  "trim s = rev (dropWhile js_whitespace (rev (dropWhile js_whitespace s)))"

text \<open>\<open>Array.prototype.join\<close> on strings.\<close>

fun js_join :: "string \<Rightarrow> string list \<Rightarrow> string" where
  "js_join sep [] = []"
| "js_join sep [x] = x"
| "js_join sep (x # y # ys) = x @ sep @ js_join sep (y # ys)"

text \<open>A nullable string inside a template literal: \<open>null\<close> prints as the word null.\<close>

definition template_str :: "string option \<Rightarrow> string" where
  "template_str v = (case v of None \<Rightarrow> ''null'' | Some s \<Rightarrow> s)"

definition nl :: string where
  "nl = [CHR 0x0A]"

text \<open>
  \<open>relevantTables\<close> is a plain object (\<open>{}\<close>) used as a dictionary. Its own properties
  are kept in creation order. Reading a key that is not an own property finds the properties
  inherited from \<open>Object.prototype\<close>, all of them truthy and none of them a table group.
  \<open>Object.values\<close> lists the own properties whose key is an array index (a canonical
  decimal numeral below \<open>2^32 - 1\<close>) first, in ascending numeric order, and then the others
  in creation order.
\<close>

type_synonym 'v js_object = "(string \<times> 'v) list"

definition Object_prototype_names :: "string list" where
  "Object_prototype_names =
     [''constructor'', ''__proto__'', ''hasOwnProperty'', ''isPrototypeOf'',
      ''propertyIsEnumerable'', ''toLocaleString'', ''toString'', ''valueOf'',
      ''__defineGetter__'', ''__defineSetter__'', ''__lookupGetter__'', ''__lookupSetter__'']"

datatype 'v property = Own 'v | Inherited | Undefined

definition get_property :: "'v js_object \<Rightarrow> string \<Rightarrow> 'v property" where
  "get_property obj k =
     (case map_of obj k of
        Some v \<Rightarrow> Own v
      | None \<Rightarrow> if k \<in> set Object_prototype_names then Inherited else Undefined)"

fun put_property :: "'v js_object \<Rightarrow> string \<Rightarrow> 'v \<Rightarrow> 'v js_object" where
  "put_property [] k v = [(k, v)]"
| "put_property ((k', v') # obj) k v =
     (if k' = k then (k, v) # obj else (k', v') # put_property obj k v)"

definition is_digit :: "char \<Rightarrow> bool" where
  "is_digit c = (48 \<le> (of_char c :: nat) \<and> (of_char c :: nat) \<le> 57)"

definition decimal_value :: "string \<Rightarrow> nat" where
  "decimal_value s = foldl (\<lambda>n c. 10 * n + (of_char c - 48)) 0 s"

definition is_array_index :: "string \<Rightarrow> bool" where
  "is_array_index s =
     (s \<noteq> [] \<and> list_all is_digit s \<and> (s = ''0'' \<or> hd s \<noteq> CHR ''0'')
      \<and> decimal_value s < 4294967295)"

definition Object_values :: "'v js_object \<Rightarrow> 'v list" where
  "Object_values obj =
     map snd (sort_key (\<lambda>p. decimal_value (fst p)) (filter (\<lambda>p. is_array_index (fst p)) obj)
              @ filter (\<lambda>p. \<not> is_array_index (fst p)) obj)"

section \<open>Schema metadata and the context handed to the synthesizer\<close>

record schema_table =
  st_table_name :: string
  st_description :: "string option"
  st_primary_key_column :: "string option"

record schema_column =
  sc_table_name :: string
  sc_column_name :: string
  sc_data_type :: string
  sc_description :: "string option"
  sc_is_primary_key :: bool
  sc_is_foreign_key :: bool
  sc_references_table :: "string option"
  sc_references_column :: "string option"

record database_schema =
  tables :: "schema_table list"
  columns :: "schema_column list"

definition pg_schema_tables :: "world \<Rightarrow> message + schema_table list" where
  "pg_schema_tables w =
     (case query_fault w SchemaTables of
        Some m \<Rightarrow> Inl m
      | None \<Rightarrow>
          Inr (map (\<lambda>r. \<lparr>st_table_name = tm_table_name r,
                         st_description = tm_description r,
                         st_primary_key_column = tm_primary_key_column r\<rparr>)
                 (arrange (scan_order w SchemaTables) (table_metadata w))))"

definition pg_schema_columns :: "world \<Rightarrow> message + schema_column list" where
  "pg_schema_columns w =
     (case query_fault w SchemaColumns of
        Some m \<Rightarrow> Inl m
      | None \<Rightarrow>
          Inr (map (\<lambda>r. \<lparr>sc_table_name = cm_table_name r,
                         sc_column_name = cm_column_name r,
                         sc_data_type = cm_data_type r,
                         sc_description = cm_description r,
                         sc_is_primary_key = cm_is_primary_key r,
                         sc_is_foreign_key = cm_is_foreign_key r,
                         sc_references_table = cm_references_table r,
                         sc_references_column = cm_references_column r\<rparr>)
                 (arrange (scan_order w SchemaColumns) (column_metadata w))))"

definition getDatabaseSchema :: "world \<Rightarrow> database_schema io" where
  "getDatabaseSchema w =
     try_catch
       (await (external (Query SchemaTables) (pg_schema_tables w)) (\<lambda>tablesResult.
        await (external (Query SchemaColumns) (pg_schema_columns w)) (\<lambda>columnsResult.
        resolve \<lparr>tables = tablesResult, columns = columnsResult\<rparr>)))
       (\<lambda>err. resolve \<lparr>tables = [], columns = []\<rparr>)"

text \<open>The entries of \<open>relevantTables\<close>: a table with the columns pushed under it.\<close>

record column_entry =
  ce_name :: string
  ce_data_type :: string
  ce_description :: "string option"
  ce_is_primary_key :: bool
  ce_is_foreign_key :: bool
  ce_references_table :: "string option"
  ce_references_column :: "string option"

record table_group =
  tg_name :: string
  tg_columns :: "column_entry list"
  tg_description :: string

text \<open>
  \<open>databaseSchema.tables.find(t => t.table_name === column.table_name)?.description || ""\<close>
\<close>

definition table_description :: "database_schema \<Rightarrow> string \<Rightarrow> string" where
  "table_description databaseSchema key =
     (case find (\<lambda>t. st_table_name t = key) (tables databaseSchema) of
        None \<Rightarrow> []
      | Some t \<Rightarrow> (case st_description t of None \<Rightarrow> [] | Some d \<Rightarrow> d))"

definition entry_of :: "ranked_column \<Rightarrow> column_entry" where
  "entry_of column =
     \<lparr>ce_name = rc_column_name column,
      ce_data_type = rc_data_type column,
      ce_description = rc_description column,
      ce_is_primary_key = rc_is_primary_key column,
      ce_is_foreign_key = rc_is_foreign_key column,
      ce_references_table = rc_references_table column,
      ce_references_column = rc_references_column column\<rparr>"

text \<open>
  One turn of the loop \<open>for (const column of similarColumns)\<close>. The group is created when
  \<open>relevantTables[column.table_name]\<close> is falsy, that is undefined. The push then reads
  \<open>relevantTables[column.table_name].columns\<close>: on an inherited property this is
  \<open>undefined\<close>, and calling \<open>push\<close> on it throws a \<open>TypeError\<close>.
\<close>

definition push_on_undefined :: message where
  "push_on_undefined = ''Cannot read properties of undefined (reading 'push')''"

definition columns_of_undefined :: message where
  "columns_of_undefined = ''Cannot read properties of undefined (reading 'columns')''"

definition group_column ::
  "database_schema \<Rightarrow> table_group js_object \<Rightarrow> ranked_column \<Rightarrow> message + table_group js_object" where
  "group_column databaseSchema relevantTables column =
     (let key = rc_table_name column;
          relevantTables' =
            (case get_property relevantTables key of
               Undefined \<Rightarrow>
                 put_property relevantTables key
                   \<lparr>tg_name = key, tg_columns = [],
                    tg_description = table_description databaseSchema key\<rparr>
             | _ \<Rightarrow> relevantTables)
      in case get_property relevantTables' key of
           Own g \<Rightarrow>
             Inr (put_property relevantTables' key (g\<lparr>tg_columns := tg_columns g @ [entry_of column]\<rparr>))
         | Inherited \<Rightarrow> Inl push_on_undefined
         | Undefined \<Rightarrow> Inl columns_of_undefined)"

fun group_columns ::
  "database_schema \<Rightarrow> ranked_column list \<Rightarrow> table_group js_object \<Rightarrow> message + table_group js_object" where
  "group_columns databaseSchema [] relevantTables = Inr relevantTables"
| "group_columns databaseSchema (column # rest) relevantTables =
     (case group_column databaseSchema relevantTables column of
        Inl e \<Rightarrow> Inl e
      | Inr relevantTables' \<Rightarrow> group_columns databaseSchema rest relevantTables')"

text \<open>The groups in the order in which the prompt lists them.\<close>

definition assemble :: "ranked_column list \<Rightarrow> database_schema \<Rightarrow> message + table_group list" where
  "assemble similarColumns databaseSchema =
     (case group_columns databaseSchema similarColumns [] of
        Inl e \<Rightarrow> Inl e
      | Inr relevantTables \<Rightarrow> Inr (Object_values relevantTables))"

section \<open>The prompt\<close>

definition render_column :: "column_entry \<Rightarrow> string" where
  "render_column col =
     ''- '' @ ce_name col @ '' ('' @ ce_data_type col @ '')''
     @ (if ce_is_primary_key col then '' PRIMARY KEY'' else [])
     @ (if ce_is_foreign_key col
        then '' FOREIGN KEY -> '' @ template_str (ce_references_table col) @ ''.''
             @ template_str (ce_references_column col)
        else [])
     @ '' '' @ nl @ ''   Description: '' @ template_str (ce_description col)"

definition render_table :: "table_group \<Rightarrow> string" where
  "render_table table =
     nl @ ''TABLE: '' @ tg_name table @ nl
     @ ''DESCRIPTION: '' @ tg_description table @ nl
     @ ''COLUMNS:'' @ nl
     @ js_join nl (map render_column (tg_columns table))"

definition schema_context :: "table_group list \<Rightarrow> string" where
  "schema_context groups = js_join (nl @ nl) (map render_table groups)"

definition prompt_head :: "string \<Rightarrow> string" where
  "prompt_head userQuery =
     nl @ ''You are an expert SQL query generator. Given a user's natural language question and information about relevant database tables and columns, generate a valid PostgreSQL query that answers the user's question.'' @ nl
     @ nl
     @ ''USER QUESTION:'' @ nl
     @ userQuery @ nl
     @ nl
     @ ''DATABASE SCHEMA:'' @ nl
     @ ''Tables and columns that are most semantically relevant to the user's question:'' @ nl"

definition prompt_tail :: string where
  "prompt_tail =
     nl @ nl
     @ ''TASK:'' @ nl
     @ ''Generate a valid PostgreSQL query that answers the user's question based on the available database schema.'' @ nl
     @ ''Your query should:'' @ nl
     @ ''1. Include only tables and columns that exist in the database'' @ nl
     @ ''2. Use proper JOIN syntax where relationships between tables exist'' @ nl
     @ ''3. Use appropriate conditions and filters based on the user's question'' @ nl
     @ ''4. Be optimized and efficient'' @ nl
     @ ''5. Return meaningful column names (use aliases where appropriate)'' @ nl
     @ nl
     @ ''RESPONSE FORMAT:'' @ nl
     @ ''Respond with ONLY the SQL query, nothing else - no explanations, no comments, just the raw SQL query.'' @ nl"

definition prompt :: "string \<Rightarrow> table_group list \<Rightarrow> string" where
  "prompt userQuery groups = prompt_head userQuery @ schema_context groups @ prompt_tail"

section \<open>SQL generation and the orchestrator\<close>

definition settle :: "message + 'a \<Rightarrow> 'a io" where
  "settle r = ([], r)"

text \<open>
  \<open>generateSQLWithClaude\<close>: group the columns, build the prompt, call the completion
  service, return \<open>response.content[0].text.trim()\<close>. Whatever is thrown on the way is
  thrown again as \<open>Failed to generate SQL: ...\<close>. The parameter \<open>similarTables\<close> is not
  read by the body.
\<close>

definition generateSQLWithClaude ::
  "world \<Rightarrow> string \<Rightarrow> ranked_table list \<Rightarrow> ranked_column list \<Rightarrow> database_schema \<Rightarrow> string io" where
  "generateSQLWithClaude w userQuery similarTables similarColumns databaseSchema =
     try_catch
       (await (settle (assemble similarColumns databaseSchema)) (\<lambda>groups.
        await (external (Completion (prompt userQuery groups))
                 (messages_create w (prompt userQuery groups))) (\<lambda>text.
        resolve (trim text))))
       (\<lambda>err. throw (''Failed to generate SQL: '' @ err))"

text \<open>The object returned to the caller; \<open>None\<close> is a property that is not set.\<close>

record ('t, 'c) envelope =
  results :: "row list"
  similarTables :: "'t list option"
  similarColumns :: "'c list option"
  executedQuery :: "string option"
  error :: "string option"
  generatedQuery :: "string option"

text \<open>
  The test \<open>sqlStatement && sqlStatement.trim()\<close> on the optional parameter: the statement
  when the test is truthy.
\<close>

definition supplied :: "string option \<Rightarrow> string option" where
  "supplied sqlStatement =
     (case sqlStatement of
        None \<Rightarrow> None
      | Some s \<Rightarrow> if s \<noteq> [] \<and> trim s \<noteq> [] then Some s else None)"

definition semanticSQLExecute ::
  "world \<Rightarrow> string \<Rightarrow> string option \<Rightarrow> (ranked_table, ranked_column) envelope io" where
  "semanticSQLExecute w query sqlStatement =
     try_catch
       (await (getDatabaseSchema w) (\<lambda>databaseSchema.
        await (findSimilarTables w query) (\<lambda>similarTables'.
        await (findSimilarColumns w query) (\<lambda>similarColumns'.
          case supplied sqlStatement of
            Some s \<Rightarrow>
              await (external (Statement s) (run_statement w s)) (\<lambda>rows.
              resolve \<lparr>results = rows, similarTables = Some similarTables',
                       similarColumns = Some similarColumns', executedQuery = Some s,
                       error = None, generatedQuery = None\<rparr>)
          | None \<Rightarrow>
              if length similarColumns' > 0 then
                await (generateSQLWithClaude w query similarTables' similarColumns' databaseSchema)
                  (\<lambda>generatedSQL.
                    try_catch
                      (await (external (Statement generatedSQL) (run_statement w generatedSQL))
                         (\<lambda>rows.
                           resolve \<lparr>results = rows, similarTables = Some similarTables',
                                    similarColumns = Some similarColumns',
                                    executedQuery = Some generatedSQL,
                                    error = None, generatedQuery = None\<rparr>))
                      (\<lambda>sqlError.
                           resolve \<lparr>results = [], similarTables = Some similarTables',
                                    similarColumns = Some similarColumns',
                                    executedQuery = None,
                                    error = Some (''Error executing generated SQL: '' @ sqlError),
                                    generatedQuery = Some generatedSQL\<rparr>))
              else
                resolve \<lparr>results = [], similarTables = Some similarTables',
                         similarColumns = Some similarColumns', executedQuery = None,
                         error = Some ''Could not determine which data to query.'',
                         generatedQuery = None\<rparr>))))
       (\<lambda>err. resolve \<lparr>results = [], similarTables = None, similarColumns = None,
                        executedQuery = None, error = Some err, generatedQuery = None\<rparr>)"

text \<open>\<open>semanticSQLExecute\<close> of \<open>src/Index.js\<close>, the variant without a completion service.\<close>

definition Index_semanticSQLExecute ::
  "world \<Rightarrow> string \<Rightarrow> string option \<Rightarrow> (unit, Index_ranked_column) envelope io" where
  "Index_semanticSQLExecute w query sqlStatement =
     try_catch
       (await (Index_findSimilarColumns w query) (\<lambda>similarColumns'.
          case supplied sqlStatement of
            Some s \<Rightarrow>
              await (external (Statement s) (run_statement w s)) (\<lambda>rows.
              resolve \<lparr>results = rows, similarTables = None,
                       similarColumns = Some similarColumns', executedQuery = Some s,
                       error = None, generatedQuery = None\<rparr>)
          | None \<Rightarrow>
              (case similarColumns' of
                 topColumn # others \<Rightarrow>
                   (let generatedSQL = ''SELECT * FROM '' @ irc_table_name topColumn @ '' LIMIT 10;''
                    in await (external (Statement generatedSQL) (run_statement w generatedSQL))
                         (\<lambda>rows.
                           resolve \<lparr>results = rows, similarTables = None,
                                    similarColumns = Some similarColumns',
                                    executedQuery = Some generatedSQL,
                                    error = None, generatedQuery = None\<rparr>))
               | [] \<Rightarrow>
                   resolve \<lparr>results = [], similarTables = None, similarColumns = Some [],
                            executedQuery = None,
                            error = Some ''Could not determine which data to query.'',
                            generatedQuery = None\<rparr>)))
       (\<lambda>err. resolve \<lparr>results = [], similarTables = None, similarColumns = None,
                        executedQuery = None, error = Some err, generatedQuery = None\<rparr>)"

section \<open>Notions used to state the properties\<close>

text \<open>The distinct elements of a list, in the order of their first occurrence.\<close>

fun first_seen :: "'a list \<Rightarrow> 'a list" where
  "first_seen [] = []"
| "first_seen (x # xs) = x # filter (\<lambda>y. y \<noteq> x) (first_seen xs)"

text \<open>
  The group a table gets when every ranked column of that table is listed under it, one
  entry for each occurrence, in ranking order.
\<close>

definition group_for :: "database_schema \<Rightarrow> ranked_column list \<Rightarrow> string \<Rightarrow> table_group" where
  "group_for databaseSchema ranked t =
     \<lparr>tg_name = t,
      tg_columns = map entry_of (filter (\<lambda>c. rc_table_name c = t) ranked),
      tg_description = table_description databaseSchema t\<rparr>"

section \<open>A concrete store\<close>

text \<open>
  A small instance of the sample database of the repository, with two-dimensional
  embeddings of length one. The embedding service is down for the text \<open>outage\<close>; the
  store knows a handful of statements and rejects every other one. On vectors of length one
  the cosine distance is one minus the inner product; with a zero vector the quotient that
  defines it is \<open>0/0\<close>, which is \<open>NaN\<close>.
\<close>

definition dot :: "vector \<Rightarrow> vector \<Rightarrow> real" where
  "dot a b = sum_list (map2 (*) a b)"

definition unit_cosine_distance :: "vector \<Rightarrow> vector \<Rightarrow> float8" where
  "unit_cosine_distance a b =
     (if dot a a = 0 \<or> dot b b = 0 then NaN else Number (1 - dot a b))"

definition shop_tables :: "table_meta list" where
  "shop_tables =
     [\<lparr>tm_table_name = ''products'',
       tm_description = Some ''Stores product catalog information including inventory and pricing details.'',
       tm_primary_key_column = Some ''product_id'', tm_embedding = Some [0, 1]\<rparr>,
      \<lparr>tm_table_name = ''customers'',
       tm_description = Some ''Contains customer personal information and contact details.'',
       tm_primary_key_column = Some ''customer_id'', tm_embedding = Some [1, 0]\<rparr>,
      \<lparr>tm_table_name = ''orders'',
       tm_description = None,
       tm_primary_key_column = Some ''order_id'', tm_embedding = Some [3/5, 4/5]\<rparr>]"

definition shop_columns :: "column_meta list" where
  "shop_columns =
     [\<lparr>cm_table_name = ''products'', cm_column_name = ''price'', cm_data_type = ''DECIMAL'',
       cm_description = Some ''Current selling price of the product in USD.'',
       cm_is_primary_key = False, cm_is_foreign_key = False,
       cm_references_table = None, cm_references_column = None, cm_embedding = Some [0, 1]\<rparr>,
      \<lparr>cm_table_name = ''customers'', cm_column_name = ''email'', cm_data_type = ''VARCHAR'',
       cm_description = Some ''Primary contact email address for the customer.'',
       cm_is_primary_key = False, cm_is_foreign_key = False,
       cm_references_table = None, cm_references_column = None, cm_embedding = Some [1, 0]\<rparr>,
      \<lparr>cm_table_name = ''orders'', cm_column_name = ''customer_id'', cm_data_type = ''INTEGER'',
       cm_description = Some ''Reference to the customer who placed the order.'',
       cm_is_primary_key = False, cm_is_foreign_key = True,
       cm_references_table = Some ''customers'', cm_references_column = Some ''customer_id'',
       cm_embedding = Some [3/5, 4/5]\<rparr>]"

definition shop_answers :: "(string \<times> row list) list" where
  "shop_answers =
     [(''SELECT product_name FROM products WHERE price > 100;'',
         [[(''product_name'', ''Laptop Pro X'')], [(''product_name'', ''Ergonomic Office Chair'')]]),
      (''SELECT * FROM customers;'', [[(''first_name'', ''John'')]]),
      (''SELECT * FROM customers LIMIT 10;'', [[(''first_name'', ''John'')]]),
      (''DELETE FROM orders;'', []),
      (''SELECT 1; DROP TABLE customers;'', [])]"

definition shop :: world where
  "shop =
     \<lparr>createEmbedding =
        (\<lambda>text. if text = ''outage'' then Inl ''embedding service unavailable''
                 else Inr (Some [1, 0])),
      table_metadata = shop_tables,
      column_metadata = shop_columns,
      cosine_distance = unit_cosine_distance,
      scan_order = (\<lambda>q. []),
      query_fault = (\<lambda>q. None),
      run_statement =
        (\<lambda>s. case map_of shop_answers s of
                Some rows \<Rightarrow> Inr rows
              | None \<Rightarrow> Inl ''syntax error or missing relation''),
      messages_create = (\<lambda>p. Inr ''SELECT * FROM customers;'')\<rparr>"







text \<open>The same store with a completion service that answers with a destructive statement.\<close>

definition shop_delete :: world where
  "shop_delete = shop\<lparr>messages_create := (\<lambda>p. Inr ''DELETE FROM orders;'')\<rparr>"

text \<open>The same store with a completion service that wraps its answer in a code fence.\<close>

definition fenced_reply :: string where
  "fenced_reply = '' ```sql'' @ nl @ ''SELECT * FROM customers;'' @ nl @ ''```'' @ nl"

definition shop_fenced :: world where
  "shop_fenced = shop\<lparr>messages_create := (\<lambda>p. Inr fenced_reply)\<rparr>"

text \<open>A ranked column with nothing but its table and its name filled in.\<close>

definition plain_column :: "string \<Rightarrow> string \<Rightarrow> ranked_column" where
  "plain_column t c =
     \<lparr>rc_table_name = t, rc_column_name = c, rc_description = None, rc_data_type = ''INTEGER'',
      rc_is_primary_key = False, rc_is_foreign_key = False,
      rc_references_table = None, rc_references_column = None, rc_similarity = Some (Number 1)\<rparr>"

definition no_schema :: database_schema where
  "no_schema = \<lparr>tables = [], columns = []\<rparr>"

definition shop_schema :: database_schema where
  "shop_schema =
     \<lparr>tables =
        [\<lparr>st_table_name = ''products'',
          st_description = Some ''Stores product catalog information including inventory and pricing details.'',
          st_primary_key_column = Some ''product_id''\<rparr>,
         \<lparr>st_table_name = ''customers'',
          st_description = Some ''Contains customer personal information and contact details.'',
          st_primary_key_column = Some ''customer_id''\<rparr>,
         \<lparr>st_table_name = ''orders'', st_description = None,
          st_primary_key_column = Some ''order_id''\<rparr>],
      columns = []\<rparr>"

text \<open>What the store ranks for any query text the embedding service answers.\<close>

definition shop_ranked_columns :: "ranked_column list" where
  "shop_ranked_columns =
     map (select_column shop [1, 0]) [shop_columns ! 1, shop_columns ! 2, shop_columns ! 0]"

section \<open>Similarity ranking: order and length\<close>





lemma arrange_Nil: "arrange [] rows = rows"
  by (simp add: arrange_def map_nth)

lemma arrange_empty: "arrange order [] = []"
  by (simp add: arrange_def)










lemma generateEmbedding_vector:
  "createEmbedding w text = Inr v \<Longrightarrow> generateEmbedding w text = ([Embedding text], Inr v)"
  by (simp add: generateEmbedding_def try_catch_def external_def)

lemma generateEmbedding_thrown:
  "createEmbedding w text = Inl e \<Longrightarrow> generateEmbedding w text = ([Embedding text], Inr None)"
  by (simp add: generateEmbedding_def try_catch_def external_def resolve_def)







section \<open>Retrieval never throws\<close>

lemma generateEmbedding_settles:
  "\<exists>v. generateEmbedding w text = ([Embedding text], Inr v)"
  by (cases "createEmbedding w text")
     (simp_all add: generateEmbedding_def try_catch_def external_def resolve_def)

lemma findSimilarTables_settles:
  "\<exists>t ts. findSimilarTables w query = (Embedding query # t, Inr ts)
          \<and> filter is_statement t = [] \<and> filter is_completion t = []"
proof -
  from generateEmbedding_settles obtain v where
    g: "generateEmbedding w query = ([Embedding query], Inr v)" by blast
  show ?thesis
  proof (cases v)
    case None
    with g show ?thesis
      by (simp add: findSimilarTables_def await_def try_catch_def resolve_def)
  next
    case (Some q)
    with g show ?thesis
      by (cases "pg_rank_tables w q")
         (simp_all add: findSimilarTables_def await_def try_catch_def resolve_def external_def)
  qed
qed

lemma findSimilarColumns_settles:
  "\<exists>t cs. findSimilarColumns w query = (Embedding query # t, Inr cs)
          \<and> filter is_statement t = [] \<and> filter is_completion t = []"
proof -
  from generateEmbedding_settles obtain v where
    g: "generateEmbedding w query = ([Embedding query], Inr v)" by blast
  show ?thesis
  proof (cases v)
    case None
    with g show ?thesis
      by (simp add: findSimilarColumns_def await_def try_catch_def resolve_def)
  next
    case (Some q)
    with g show ?thesis
      by (cases "pg_rank_columns w q")
         (simp_all add: findSimilarColumns_def await_def try_catch_def resolve_def external_def)
  qed
qed

lemma Index_findSimilarColumns_settles:
  "\<exists>t cs. Index_findSimilarColumns w query = (Embedding query # t, Inr cs)
          \<and> filter is_statement t = [] \<and> filter is_completion t = []"
proof -
  from generateEmbedding_settles obtain v where
    g: "generateEmbedding w query = ([Embedding query], Inr v)" by blast
  show ?thesis
  proof (cases v)
    case None
    with g show ?thesis
      by (simp add: Index_findSimilarColumns_def await_def try_catch_def resolve_def)
  next
    case (Some q)
    with g show ?thesis
      by (cases "Index_pg_rank_columns w q")
         (simp_all add: Index_findSimilarColumns_def await_def try_catch_def resolve_def external_def)
  qed
qed

lemma getDatabaseSchema_settles:
  "\<exists>t ds. getDatabaseSchema w = (t, Inr ds)
          \<and> filter is_statement t = [] \<and> filter is_completion t = []"
  by (cases "pg_schema_tables w"; cases "pg_schema_columns w")
     (simp_all add: getDatabaseSchema_def await_def try_catch_def resolve_def external_def)

text \<open>
  C3. When the embedding service does not deliver a vector for the query text (it throws or
  answers with a falsy value), or when the candidate table is empty, \<open>findSimilarTables\<close>
  and \<open>findSimilarColumns\<close> (both variants) return the empty list as their value: the
  outcome is a returned \<open>[]\<close>, not a thrown error.
\<close>

theorem retrieval_failure_gives_empty:
  "((\<forall>v. createEmbedding w query \<noteq> Inr (Some v)) \<or> table_metadata w = []
      \<longrightarrow> outcome (findSimilarTables w query) = Inr [])
 \<and> ((\<forall>v. createEmbedding w query \<noteq> Inr (Some v)) \<or> column_metadata w = []
      \<longrightarrow> outcome (findSimilarColumns w query) = Inr [])
 \<and> ((\<forall>v. createEmbedding w query \<noteq> Inr (Some v)) \<or> column_metadata w = []
      \<longrightarrow> outcome (Index_findSimilarColumns w query) = Inr [])"
proof -
  from generateEmbedding_settles obtain v where
    g: "generateEmbedding w query = ([Embedding query], Inr v)" by blast
  have nv: "v = None" if "\<forall>v. createEmbedding w query \<noteq> Inr (Some v)"
    using that g generateEmbedding_vector [of w query v] generateEmbedding_vector [of w query]
    by (cases "createEmbedding w query") (auto simp: generateEmbedding_thrown)
  have a: "outcome (findSimilarTables w query) = Inr []"
    if "(\<forall>v. createEmbedding w query \<noteq> Inr (Some v)) \<or> table_metadata w = []"
  proof (cases v)
    case None
    with g show ?thesis
      by (simp add: findSimilarTables_def await_def try_catch_def resolve_def outcome_def)
  next
    case (Some q)
    with nv that have "table_metadata w = []" by auto
    with g Some show ?thesis
      by (simp add: findSimilarTables_def await_def try_catch_def resolve_def outcome_def
            external_def pg_rank_tables_def order_by_desc_def arrange_empty split: option.splits)
  qed
  have b: "outcome (findSimilarColumns w query) = Inr []"
    if "(\<forall>v. createEmbedding w query \<noteq> Inr (Some v)) \<or> column_metadata w = []"
  proof (cases v)
    case None
    with g show ?thesis
      by (simp add: findSimilarColumns_def await_def try_catch_def resolve_def outcome_def)
  next
    case (Some q)
    with nv that have "column_metadata w = []" by auto
    with g Some show ?thesis
      by (simp add: findSimilarColumns_def await_def try_catch_def resolve_def outcome_def
            external_def pg_rank_columns_def order_by_desc_def arrange_empty split: option.splits)
  qed
  have c: "outcome (Index_findSimilarColumns w query) = Inr []"
    if "(\<forall>v. createEmbedding w query \<noteq> Inr (Some v)) \<or> column_metadata w = []"
  proof (cases v)
    case None
    with g show ?thesis
      by (simp add: Index_findSimilarColumns_def await_def try_catch_def resolve_def outcome_def)
  next
    case (Some q)
    with nv that have "column_metadata w = []" by auto
    with g Some show ?thesis
      by (simp add: Index_findSimilarColumns_def await_def try_catch_def resolve_def outcome_def
            external_def Index_pg_rank_columns_def order_by_desc_def arrange_empty split: option.splits)
  qed
  from a b c show ?thesis by blast
qed

theorem retrieval_failure_gives_empty_witness:
  "createEmbedding shop ''outage'' = Inl ''embedding service unavailable''
   \<and> outcome (findSimilarTables shop ''outage'') = Inr []
   \<and> outcome (findSimilarColumns shop ''outage'') = Inr []
   \<and> outcome (Index_findSimilarColumns shop ''outage'') = Inr []"
proof -
  have e: "createEmbedding shop ''outage'' = Inl ''embedding service unavailable''"
    by (simp add: shop_def)
  then have h: "\<forall>v. createEmbedding shop ''outage'' \<noteq> Inr (Some v)"
    by simp
  with e retrieval_failure_gives_empty [of shop "''outage''"] show ?thesis
    by blast
qed

section \<open>Grouping the ranked columns\<close>

lemma set_first_seen: "set (first_seen xs) = set xs"
  by (induction xs) auto

lemma distinct_first_seen: "distinct (first_seen xs)"
  by (induction xs) auto

lemma first_seen_snoc:
  "first_seen (xs @ [x]) = (if x \<in> set xs then first_seen xs else first_seen xs @ [x])"
  by (induction xs) auto

lemma group_columns_snoc:
  "group_columns ds (cols @ [c]) obj =
     (case group_columns ds cols obj of
        Inl e \<Rightarrow> Inl e
      | Inr obj' \<Rightarrow> group_column ds obj' c)"
  by (induction cols arbitrary: obj) (auto split: sum.splits)

lemma map_of_keyed:
  "map_of (map (\<lambda>t. (t, f t)) names) k = (if k \<in> set names then Some (f k) else None)"
  by (induction names) auto

lemma put_property_absent:
  "k \<notin> set names \<Longrightarrow>
   put_property (map (\<lambda>t. (t, f t)) names) k v = map (\<lambda>t. (t, f t)) names @ [(k, v)]"
  by (induction names) auto

lemma put_property_present:
  "k \<in> set names \<Longrightarrow> distinct names \<Longrightarrow>
   put_property (map (\<lambda>t. (t, f t)) names) k v = map (\<lambda>t. (t, if t = k then v else f t)) names"
  by (induction names) auto

lemma put_property_last:
  "k \<notin> fst ` set obj \<Longrightarrow> put_property (obj @ [(k, v)]) k v' = obj @ [(k, v')]"
  by (induction obj) auto

lemma group_column_known:
  assumes "rc_table_name c \<in> set names" and "distinct names"
  shows "group_column ds (map (\<lambda>t. (t, f t)) names) c =
           Inr (map (\<lambda>t. (t, if t = rc_table_name c
                                 then (f t)\<lparr>tg_columns := tg_columns (f t) @ [entry_of c]\<rparr>
                                 else f t)) names)"
proof -
  have "put_property (map (\<lambda>t. (t, f t)) names) (rc_table_name c) v =
        map (\<lambda>t. (t, if t = rc_table_name c then v else f t)) names" for v
    using assms by (rule put_property_present)
  moreover have "map (\<lambda>t. (t, if t = rc_table_name c then (f (rc_table_name c))\<lparr>tg_columns := tg_columns (f (rc_table_name c)) @ [entry_of c]\<rparr> else f t)) names
     = map (\<lambda>t. (t, if t = rc_table_name c then (f t)\<lparr>tg_columns := tg_columns (f t) @ [entry_of c]\<rparr> else f t)) names"
    by (rule map_cong) auto
  ultimately show ?thesis
    using assms(1)
    by (simp add: group_column_def get_property_def map_of_keyed Let_def)
qed

lemma group_column_inherited:
  assumes "rc_table_name c \<notin> set names" and "rc_table_name c \<in> set Object_prototype_names"
  shows "group_column ds (map (\<lambda>t. (t, f t)) names) c = Inl push_on_undefined"
  using assms by (simp add: group_column_def get_property_def map_of_keyed Let_def)

lemma group_column_new:
  assumes "rc_table_name c \<notin> set names" and "rc_table_name c \<notin> set Object_prototype_names"
  shows "group_column ds (map (\<lambda>t. (t, f t)) names) c =
           Inr (map (\<lambda>t. (t, f t)) names
                @ [(rc_table_name c,
                    \<lparr>tg_name = rc_table_name c, tg_columns = [entry_of c],
                     tg_description = table_description ds (rc_table_name c)\<rparr>)])"
proof -
  let ?obj = "map (\<lambda>t. (t, f t)) names"
  let ?g = "\<lparr>tg_name = rc_table_name c, tg_columns = [],
             tg_description = table_description ds (rc_table_name c)\<rparr>"
  have nk: "rc_table_name c \<notin> fst ` set ?obj"
    using assms(1) by (auto simp: image_iff)
  have g1: "get_property ?obj (rc_table_name c) = Undefined"
    using assms by (simp add: get_property_def map_of_keyed)
  have p1: "put_property ?obj (rc_table_name c) ?g = ?obj @ [(rc_table_name c, ?g)]"
    using assms(1) by (rule put_property_absent)
  have g2: "get_property (?obj @ [(rc_table_name c, ?g)]) (rc_table_name c) = Own ?g"
    using assms(1) by (simp add: get_property_def map_of_keyed map_add_def)
  have p2: "put_property (?obj @ [(rc_table_name c, ?g)]) (rc_table_name c) v
              = ?obj @ [(rc_table_name c, v)]" for v
    using nk by (rule put_property_last)
  show ?thesis
    unfolding group_column_def Let_def g1 property.case p1 g2 p2 by simp
qed

lemma group_columns_shape:
  "group_columns ds cols [] = Inr obj \<Longrightarrow>
   obj = map (\<lambda>t. (t, group_for ds cols t)) (first_seen (map rc_table_name cols))"
proof (induction cols arbitrary: obj rule: rev_induct)
  case Nil
  then show ?case by simp
next
  case (snoc c cols)
  let ?names = "first_seen (map rc_table_name cols)"
  let ?k = "rc_table_name c"
  from snoc.prems obtain obj0 where
    o0: "group_columns ds cols [] = Inr obj0" and st: "group_column ds obj0 c = Inr obj"
    by (auto simp: group_columns_snoc split: sum.splits)
  from snoc.IH [OF o0] have sh: "obj0 = map (\<lambda>t. (t, group_for ds cols t)) ?names" .
  show ?case
  proof (cases "?k \<in> set ?names")
    case True
    then have mem: "?k \<in> set (map rc_table_name cols)" by (simp add: set_first_seen)
    from st sh group_column_known [where c = c and names = ?names and f = "group_for ds cols" and ds = ds, OF True distinct_first_seen]
    have "obj = map (\<lambda>t. (t, if t = ?k then (group_for ds cols t)\<lparr>tg_columns := tg_columns (group_for ds cols t) @ [entry_of c]\<rparr> else group_for ds cols t)) ?names"
      by simp
    also have "\<dots> = map (\<lambda>t. (t, group_for ds (cols @ [c]) t)) ?names"
      by (rule map_cong) (auto simp: group_for_def)
    finally show ?thesis
      using mem by (simp add: first_seen_snoc)
  next
    case False
    then have nmem: "?k \<notin> set (map rc_table_name cols)" by (simp add: set_first_seen)
    then have none: "filter (\<lambda>c'. rc_table_name c' = ?k) cols = []"
      by (induction cols) auto
    have np: "?k \<notin> set Object_prototype_names"
    proof
      assume "?k \<in> set Object_prototype_names"
      from group_column_inherited [where c = c and names = ?names and f = "group_for ds cols" and ds = ds, OF False this] st sh
      show False by simp
    qed
    from st sh group_column_new [where c = c and names = ?names and f = "group_for ds cols" and ds = ds, OF False np]
    have "obj = map (\<lambda>t. (t, group_for ds cols t)) ?names
                @ [(?k, \<lparr>tg_name = ?k, tg_columns = [entry_of c], tg_description = table_description ds ?k\<rparr>)]"
      by simp
    also have "map (\<lambda>t. (t, group_for ds cols t)) ?names = map (\<lambda>t. (t, group_for ds (cols @ [c]) t)) ?names"
      using False by (intro map_cong) (auto simp: group_for_def)
    finally show ?thesis
      using nmem none by (simp add: first_seen_snoc group_for_def)
  qed
qed

lemma group_columns_succeeds:
  "\<forall>c \<in> set cols. rc_table_name c \<notin> set Object_prototype_names \<Longrightarrow>
   \<exists>obj. group_columns ds cols [] = Inr obj"
proof (induction cols rule: rev_induct)
  case Nil
  then show ?case by simp
next
  case (snoc c cols)
  then obtain obj0 where o0: "group_columns ds cols [] = Inr obj0" by auto
  let ?names = "first_seen (map rc_table_name cols)"
  from group_columns_shape [OF o0] have sh: "obj0 = map (\<lambda>t. (t, group_for ds cols t)) ?names" .
  from snoc.prems have np: "rc_table_name c \<notin> set Object_prototype_names" by simp
  have "\<exists>obj. group_column ds obj0 c = Inr obj"
  proof (cases "rc_table_name c \<in> set ?names")
    case True
    from group_column_known [where c = c and names = ?names and f = "group_for ds cols" and ds = ds, OF True distinct_first_seen] sh
    show ?thesis by simp
  next
    case False
    from group_column_new [where c = c and names = ?names and f = "group_for ds cols" and ds = ds, OF False np] sh
    show ?thesis by simp
  qed
  with o0 show ?case by (simp add: group_columns_snoc)
qed

lemma group_columns_fails:
  "group_columns ds cols [] = Inl e \<Longrightarrow> \<exists>c \<in> set cols. rc_table_name c \<in> set Object_prototype_names"
  using group_columns_succeeds [of cols ds] by (cases "\<forall>c \<in> set cols. rc_table_name c \<notin> set Object_prototype_names") auto

lemma Object_values_creation_order:
  "\<forall>p \<in> set obj. \<not> is_array_index (fst p) \<Longrightarrow> Object_values obj = map snd obj"
proof -
  assume a: "\<forall>p \<in> set obj. \<not> is_array_index (fst p)"
  then have "filter (\<lambda>p. is_array_index (fst p)) obj = []"
    by (auto simp: filter_empty_conv)
  moreover from a have "filter (\<lambda>p. \<not> is_array_index (fst p)) obj = obj"
    by (auto simp: filter_id_conv)
  ultimately show ?thesis by (simp add: Object_values_def)
qed

lemma set_Object_values: "set (Object_values obj) = snd ` set obj"
  by (auto simp: Object_values_def image_iff)

lemma assemble_groups:
  assumes "assemble ranked ds = Inr groups"
  shows "set groups = group_for ds ranked ` set (map rc_table_name ranked)"
proof -
  from assms obtain obj where o: "group_columns ds ranked [] = Inr obj"
    and g: "groups = Object_values obj"
    by (auto simp: assemble_def split: sum.splits)
  from group_columns_shape [OF o] g show ?thesis
    by (simp add: set_Object_values image_image set_first_seen)
qed

lemma assemble_in_ranking_order:
  assumes "\<forall>c \<in> set ranked. \<not> is_array_index (rc_table_name c)"
      and "\<forall>c \<in> set ranked. rc_table_name c \<notin> set Object_prototype_names"
  shows "assemble ranked ds = Inr (map (group_for ds ranked) (first_seen (map rc_table_name ranked)))"
proof -
  from group_columns_succeeds [OF assms(2)] obtain obj where
    o: "group_columns ds ranked [] = Inr obj" by blast
  from group_columns_shape [OF o] have
    sh: "obj = map (\<lambda>t. (t, group_for ds ranked t)) (first_seen (map rc_table_name ranked))" .
  with assms(1) have "\<forall>p \<in> set obj. \<not> is_array_index (fst p)"
    by (auto simp: set_first_seen)
  then have "Object_values obj = map snd obj" by (rule Object_values_creation_order)
  with o sh show ?thesis
    by (simp add: assemble_def comp_def)
qed

lemma inherited_name_breaks_grouping:
  "assemble [plain_column ''constructor'' ''id''] no_schema = Inl push_on_undefined"
  by (simp add: assemble_def group_column_def get_property_def Let_def
      Object_prototype_names_def plain_column_def no_schema_def)

text \<open>
  The assembler on ordinary table names. When no table name among the ranked columns is an
  array index and none is the name of a property inherited from \<open>Object.prototype\<close>, the
  assembler succeeds; it groups the ranked columns by owning table name; each group's
  description is the description of the first row of the schema metadata with that table
  name, and the empty string when that row has no description or there is no such row; and
  the groups stand, in the prompt, in the order in which their first column stands in the
  ranked list.
\<close>

theorem groups_follow_first_contributing_column:
  assumes "\<forall>c \<in> set ranked. \<not> is_array_index (rc_table_name c)"
      and "\<forall>c \<in> set ranked. rc_table_name c \<notin> set Object_prototype_names"
  shows "\<exists>groups.
           assemble ranked databaseSchema = Inr groups
         \<and> map tg_name groups = first_seen (map rc_table_name ranked)
         \<and> (\<forall>g \<in> set groups.
               tg_columns g = map entry_of (filter (\<lambda>c. rc_table_name c = tg_name g) ranked))
         \<and> (\<forall>g \<in> set groups.
               tg_description g =
                 (case find (\<lambda>t. st_table_name t = tg_name g) (tables databaseSchema) of
                    None \<Rightarrow> []
                  | Some t \<Rightarrow> (case st_description t of None \<Rightarrow> [] | Some d \<Rightarrow> d)))
         \<and> prompt userQuery groups =
             prompt_head userQuery @ js_join (nl @ nl) (map render_table groups) @ prompt_tail"
proof -
  let ?groups = "map (group_for databaseSchema ranked) (first_seen (map rc_table_name ranked))"
  have a: "assemble ranked databaseSchema = Inr ?groups"
    using assms by (rule assemble_in_ranking_order)
  have n: "map tg_name ?groups = first_seen (map rc_table_name ranked)"
    by (simp add: comp_def group_for_def)
  have c: "\<forall>g \<in> set ?groups.
             tg_columns g = map entry_of (filter (\<lambda>c. rc_table_name c = tg_name g) ranked)"
    by (auto simp: group_for_def)
  have d: "\<forall>g \<in> set ?groups.
             tg_description g =
               (case find (\<lambda>t. st_table_name t = tg_name g) (tables databaseSchema) of
                  None \<Rightarrow> []
                | Some t \<Rightarrow> (case st_description t of None \<Rightarrow> [] | Some d \<Rightarrow> d))"
    by (auto simp: group_for_def table_description_def)
  have p: "prompt userQuery ?groups =
             prompt_head userQuery @ js_join (nl @ nl) (map render_table ?groups) @ prompt_tail"
    by (simp add: prompt_def schema_context_def)
  from a n c d p show ?thesis by blast
qed

theorem groups_follow_first_contributing_column_witness:
  "\<not> is_array_index ''orders'' \<and> \<not> is_array_index ''customers''
   \<and> ''orders'' \<notin> set Object_prototype_names \<and> ''customers'' \<notin> set Object_prototype_names
   \<and> (\<exists>groups.
         assemble [plain_column ''orders'' ''status'', plain_column ''customers'' ''email'',
                   plain_column ''orders'' ''total_amount''] shop_schema = Inr groups
       \<and> map tg_name groups = [''orders'', ''customers'']
       \<and> map tg_description groups
            = [[], ''Contains customer personal information and contact details.''])"
proof -
  let ?R = "[plain_column ''orders'' ''status'', plain_column ''customers'' ''email'',
             plain_column ''orders'' ''total_amount'']"
  have i: "\<not> is_array_index ''orders''" "\<not> is_array_index ''customers''"
    by (simp_all add: is_array_index_def is_digit_def)
  have n: "''orders'' \<notin> set Object_prototype_names" "''customers'' \<notin> set Object_prototype_names"
    by (simp_all add: Object_prototype_names_def)
  have h1: "\<forall>c \<in> set ?R. \<not> is_array_index (rc_table_name c)"
    using i by (simp add: plain_column_def)
  have h2: "\<forall>c \<in> set ?R. rc_table_name c \<notin> set Object_prototype_names"
    using n by (simp add: plain_column_def)
  from groups_follow_first_contributing_column [OF h1 h2, of shop_schema "[]"]
  obtain groups where
    a: "assemble ?R shop_schema = Inr groups"
    and o: "map tg_name groups = first_seen (map rc_table_name ?R)"
    and d: "\<forall>g \<in> set groups.
               tg_description g =
                 (case find (\<lambda>t. st_table_name t = tg_name g) (tables shop_schema) of
                    None \<Rightarrow> []
                  | Some t \<Rightarrow> (case st_description t of None \<Rightarrow> [] | Some d \<Rightarrow> d))"
    by blast
  from o have names: "map tg_name groups = [''orders'', ''customers'']"
    by (simp add: plain_column_def)
  then obtain g1 g2 where g: "groups = [g1, g2]" "tg_name g1 = ''orders''" "tg_name g2 = ''customers''"
    by (auto simp: map_eq_Cons_conv)
  from d g have "tg_description g1 = []"
    and "tg_description g2 = ''Contains customer personal information and contact details.''"
    by (simp_all add: shop_schema_def)
  with g have "map tg_description groups
            = [[], ''Contains customer personal information and contact details.'']"
    by simp
  with i n a names show ?thesis by simp
qed

text \<open>
  C6. The groups are not always listed in the order of their first contributing column. For
  two columns ranked with the table names \<open>10\<close> and then \<open>9\<close>, and no schema
  metadata, the assembler groups each column under its table, gives both groups the empty
  description, and lists the group of \<open>9\<close> before the group of \<open>10\<close>, while the order
  of first occurrence in the ranking is \<open>10\<close>, \<open>9\<close>.
\<close>

theorem numeric_table_names_reordered:
  "assemble [plain_column ''10'' ''id'', plain_column ''9'' ''id''] no_schema =
     Inr [\<lparr>tg_name = ''9'', tg_columns = [entry_of (plain_column ''9'' ''id'')], tg_description = []\<rparr>,
          \<lparr>tg_name = ''10'', tg_columns = [entry_of (plain_column ''10'' ''id'')], tg_description = []\<rparr>]
   \<and> first_seen (map rc_table_name [plain_column ''10'' ''id'', plain_column ''9'' ''id'']) = [''10'', ''9'']"
  by (simp add: assemble_def group_column_def get_property_def Let_def
      Object_prototype_names_def plain_column_def no_schema_def table_description_def entry_of_def
      Object_values_def is_array_index_def is_digit_def decimal_value_def)

lemma count_list_map_le: "count_list xs x \<le> count_list (map f xs) (f x)"
  by (induction xs) auto

lemma count_list_filter: "P x \<Longrightarrow> count_list (filter P xs) x = count_list xs x"
  by (induction xs) auto

text \<open>
  C7 (as the code has it). Nothing is dropped: whenever the assembler succeeds, every table
  named by a ranked column has a group, and the group of a table lists one entry for every
  occurrence of a column of that table in the ranked list, in ranking order. A column that
  occurs twice in the ranked list is therefore listed at least twice in its group.
\<close>

theorem every_occurrence_is_listed:
  assumes "assemble ranked databaseSchema = Inr groups"
  shows "(\<forall>c \<in> set ranked. \<exists>g \<in> set groups. tg_name g = rc_table_name c)
       \<and> (\<forall>g \<in> set groups.
             tg_columns g = map entry_of (filter (\<lambda>c. rc_table_name c = tg_name g) ranked))
       \<and> (\<forall>g \<in> set groups. \<forall>c \<in> set ranked. rc_table_name c = tg_name g \<longrightarrow>
             count_list ranked c \<le> count_list (tg_columns g) (entry_of c))"
proof -
  from assemble_groups [OF assms] have
    s: "set groups = group_for databaseSchema ranked ` set (map rc_table_name ranked)" .
  have a: "\<forall>c \<in> set ranked. \<exists>g \<in> set groups. tg_name g = rc_table_name c"
    using s by (auto simp: group_for_def)
  have b: "\<forall>g \<in> set groups.
             tg_columns g = map entry_of (filter (\<lambda>c. rc_table_name c = tg_name g) ranked)"
    using s by (auto simp: group_for_def)
  have c: "count_list ranked c \<le> count_list (tg_columns g) (entry_of c)"
    if "g \<in> set groups" and "rc_table_name c = tg_name g" for g c
  proof -
    from b that(1) have "tg_columns g = map entry_of (filter (\<lambda>c. rc_table_name c = tg_name g) ranked)"
      by blast
    moreover have "count_list (filter (\<lambda>c. rc_table_name c = tg_name g) ranked) c = count_list ranked c"
      using that(2) by (simp add: count_list_filter)
    ultimately show ?thesis
      using count_list_map_le [of "filter (\<lambda>c. rc_table_name c = tg_name g) ranked" c entry_of]
      by simp
  qed
  from a b c show ?thesis by blast
qed

theorem every_occurrence_is_listed_witness:
  "assemble [plain_column ''customers'' ''email'', plain_column ''orders'' ''status'',
             plain_column ''customers'' ''email''] no_schema =
     Inr [\<lparr>tg_name = ''customers'',
           tg_columns = [entry_of (plain_column ''customers'' ''email''),
                         entry_of (plain_column ''customers'' ''email'')],
           tg_description = []\<rparr>,
          \<lparr>tg_name = ''orders'', tg_columns = [entry_of (plain_column ''orders'' ''status'')],
           tg_description = []\<rparr>]
   \<and> count_list [plain_column ''customers'' ''email'', plain_column ''orders'' ''status'',
                  plain_column ''customers'' ''email''] (plain_column ''customers'' ''email'') = 2
   \<and> 2 \<le> count_list [entry_of (plain_column ''customers'' ''email''),
                        entry_of (plain_column ''customers'' ''email'')]
                       (entry_of (plain_column ''customers'' ''email''))"
proof -
  let ?R = "[plain_column ''customers'' ''email'', plain_column ''orders'' ''status'',
             plain_column ''customers'' ''email'']"
  let ?gc = "\<lparr>tg_name = ''customers'',
           tg_columns = [entry_of (plain_column ''customers'' ''email''),
                         entry_of (plain_column ''customers'' ''email'')],
           tg_description = []\<rparr>"
  let ?go = "\<lparr>tg_name = ''orders'', tg_columns = [entry_of (plain_column ''orders'' ''status'')],
           tg_description = []\<rparr>"
  have a: "assemble ?R no_schema = Inr [?gc, ?go]"
    by (simp add: assemble_def group_column_def get_property_def Let_def
      Object_prototype_names_def plain_column_def no_schema_def table_description_def entry_of_def
      Object_values_def is_array_index_def is_digit_def decimal_value_def)
  have c: "count_list ?R (plain_column ''customers'' ''email'') = 2"
    by (simp add: plain_column_def)
  from every_occurrence_is_listed [OF a] have
    "\<forall>g \<in> set [?gc, ?go]. \<forall>c \<in> set ?R. rc_table_name c = tg_name g \<longrightarrow>
             count_list ?R c \<le> count_list (tg_columns g) (entry_of c)"
    by blast
  then have "count_list ?R (plain_column ''customers'' ''email'')
               \<le> count_list (tg_columns ?gc) (entry_of (plain_column ''customers'' ''email''))"
    by (simp add: plain_column_def)
  with c have "2 \<le> count_list (tg_columns ?gc) (entry_of (plain_column ''customers'' ''email''))"
    by simp
  with a c show ?thesis by simp
qed

text \<open>The same column ranked twice is listed twice under its table.\<close>

theorem repeated_column_listed_twice:
  "assemble [plain_column ''customers'' ''email'', plain_column ''customers'' ''email''] no_schema =
     Inr [\<lparr>tg_name = ''customers'',
           tg_columns = [entry_of (plain_column ''customers'' ''email''),
                         entry_of (plain_column ''customers'' ''email'')],
           tg_description = []\<rparr>]"
  by (simp add: assemble_def group_column_def get_property_def Let_def
      Object_prototype_names_def plain_column_def no_schema_def table_description_def entry_of_def
      Object_values_def is_array_index_def is_digit_def decimal_value_def)

section \<open>Extraction of the generated statement\<close>

lemma trim_rest:
  "dropWhile js_whitespace text =
     trim text @ rev (takeWhile js_whitespace (rev (dropWhile js_whitespace text)))"
proof -
  let ?d = "dropWhile js_whitespace text"
  have "rev (takeWhile js_whitespace (rev ?d) @ dropWhile js_whitespace (rev ?d)) = ?d"
    by (simp only: takeWhile_dropWhile_id rev_rev_ident)
  then show ?thesis
    by (simp only: rev_append trim_def)
qed

lemma trim_decomposition:
  "\<exists>before after. text = before @ trim text @ after
      \<and> list_all js_whitespace before \<and> list_all js_whitespace after"
proof -
  let ?d = "dropWhile js_whitespace text"
  let ?a = "takeWhile js_whitespace text"
  let ?b = "rev (takeWhile js_whitespace (rev ?d))"
  have "text = ?a @ ?d" by simp
  with trim_rest [of "text"] have 1: "text = ?a @ trim text @ ?b" by simp
  have 3: "list_all js_whitespace ?a"
    by (auto simp: list_all_iff dest: set_takeWhileD)
  have 4: "list_all js_whitespace ?b"
    by (auto simp: list_all_iff dest: set_takeWhileD)
  from 1 3 4 show ?thesis by blast
qed

lemma trim_ends:
  assumes "trim text \<noteq> []"
  shows "\<not> js_whitespace (hd (trim text)) \<and> \<not> js_whitespace (last (trim text))"
proof -
  let ?d = "dropWhile js_whitespace text"
  let ?e = "dropWhile js_whitespace (rev ?d)"
  from assms have e: "?e \<noteq> []" by (simp add: trim_def)
  then have l: "\<not> js_whitespace (hd ?e)" by (rule hd_dropWhile)
  have "last (trim text) = hd ?e" using e by (simp add: trim_def last_rev)
  with l have A: "\<not> js_whitespace (last (trim text))" by simp
  have d: "?d \<noteq> []"
  proof
    assume "?d = []"
    then have "trim text = []" by (simp only: trim_def rev.simps dropWhile.simps)
    with assms show False by simp
  qed
  then have hd: "\<not> js_whitespace (hd ?d)" by (rule hd_dropWhile)
  from trim_rest [of "text"] assms have "hd ?d = hd (trim text)" by (metis hd_append2)
  with hd A show ?thesis by simp
qed

lemma generateSQLWithClaude_returns:
  assumes "assemble ranked ds = Inr groups" and "messages_create w (prompt uq groups) = Inr text"
  shows "generateSQLWithClaude w uq ts ranked ds = ([Completion (prompt uq groups)], Inr (trim text))"
  using assms
  by (simp add: generateSQLWithClaude_def try_catch_def await_def settle_def external_def resolve_def)

lemma generateSQLWithClaude_service_fails:
  assumes "assemble ranked ds = Inr groups" and "messages_create w (prompt uq groups) = Inl e"
  shows "generateSQLWithClaude w uq ts ranked ds =
           ([Completion (prompt uq groups)], Inl (''Failed to generate SQL: '' @ e))"
  using assms
  by (simp add: generateSQLWithClaude_def try_catch_def await_def settle_def external_def throw_def)

lemma generateSQLWithClaude_grouping_fails:
  assumes "assemble ranked ds = Inl e"
  shows "generateSQLWithClaude w uq ts ranked ds = ([], Inl (''Failed to generate SQL: '' @ e))"
  using assms
  by (simp add: generateSQLWithClaude_def try_catch_def await_def settle_def throw_def)

text \<open>
  C8 (as the code has it). When the columns can be grouped and the completion service
  answers with a text, the synthesizer returns that text with the white space at both ends
  removed and nothing else: the text is white space, then the result, then white space, and
  a non-empty result neither starts nor ends with white space. The content of the text is
  not inspected.
\<close>

theorem synthesizer_only_trims:
  assumes "assemble ranked databaseSchema = Inr groups"
      and "messages_create w (prompt userQuery groups) = Inr text"
  shows "outcome (generateSQLWithClaude w userQuery rankedTables ranked databaseSchema) = Inr (trim text)
       \<and> (\<exists>before after. text = before @ trim text @ after
             \<and> list_all js_whitespace before \<and> list_all js_whitespace after)
       \<and> (trim text \<noteq> [] \<longrightarrow>
             \<not> js_whitespace (hd (trim text)) \<and> \<not> js_whitespace (last (trim text)))"
  using generateSQLWithClaude_returns [OF assms] trim_decomposition [of "text"] trim_ends [of "text"]
  by (simp add: outcome_def)

theorem synthesizer_only_trims_witness:
  "assemble [] no_schema = Inr []
   \<and> messages_create shop_fenced (prompt ''show me all customers'' []) = Inr fenced_reply
   \<and> outcome (generateSQLWithClaude shop_fenced ''show me all customers'' [] [] no_schema)
       = Inr (trim fenced_reply)
   \<and> trim fenced_reply = ''```sql'' @ nl @ ''SELECT * FROM customers;'' @ nl @ ''```''"
proof -
  have a: "assemble [] no_schema = Inr []"
    by (simp add: assemble_def Object_values_def)
  have m: "messages_create shop_fenced (prompt ''show me all customers'' []) = Inr fenced_reply"
    by (simp add: shop_fenced_def shop_def)
  have t: "trim fenced_reply = ''```sql'' @ nl @ ''SELECT * FROM customers;'' @ nl @ ''```''"
    by (simp add: fenced_reply_def trim_def js_whitespace_def nl_def)
  from synthesizer_only_trims [OF a m, of "[]"] a m t show ?thesis
    by simp
qed

text \<open>An answer wrapped in a code fence is returned with its fence markers.\<close>

theorem fenced_reply_keeps_fences:
  "outcome (generateSQLWithClaude shop_fenced ''show me all customers'' [] [] no_schema)
     = Inr (''```sql'' @ nl @ ''SELECT * FROM customers;'' @ nl @ ''```'')"
  by (simp add: generateSQLWithClaude_def try_catch_def await_def settle_def external_def resolve_def
        outcome_def assemble_def Object_values_def shop_fenced_def shop_def fenced_reply_def
        trim_def js_whitespace_def nl_def)

section \<open>The orchestrator, path by path\<close>

lemma trim_Nil: "trim [] = []"
  by (simp add: trim_def)

lemma supplied_Some: "trim s \<noteq> [] \<Longrightarrow> supplied (Some s) = Some s"
  by (auto simp: supplied_def trim_Nil)

lemma supplied_statement: "supplied st = Some s \<Longrightarrow> st = Some s"
  by (auto simp: supplied_def split: option.splits if_splits)

lemma semanticSQLExecute_direct:
  assumes "supplied st = Some s"
      and "getDatabaseSchema w = (t1, Inr ds)"
      and "findSimilarTables w query = (t2, Inr ts)"
      and "findSimilarColumns w query = (t3, Inr cs)"
  shows "semanticSQLExecute w query st =
           (t1 @ t2 @ t3 @ [Statement s],
            case run_statement w s of
              Inl e \<Rightarrow>
                Inr \<lparr>results = [], similarTables = None, similarColumns = None,
                     executedQuery = None, error = Some e, generatedQuery = None\<rparr>
            | Inr rows \<Rightarrow>
                Inr \<lparr>results = rows, similarTables = Some ts, similarColumns = Some cs,
                     executedQuery = Some s, error = None, generatedQuery = None\<rparr>)"
  using assms
  by (simp add: semanticSQLExecute_def await_def try_catch_def external_def resolve_def
        split: sum.splits)

lemma semanticSQLExecute_no_columns:
  assumes "supplied st = None"
      and "getDatabaseSchema w = (t1, Inr ds)"
      and "findSimilarTables w query = (t2, Inr ts)"
      and "findSimilarColumns w query = (t3, Inr [])"
  shows "semanticSQLExecute w query st =
           (t1 @ t2 @ t3,
            Inr \<lparr>results = [], similarTables = Some ts, similarColumns = Some [],
                 executedQuery = None, error = Some ''Could not determine which data to query.'',
                 generatedQuery = None\<rparr>)"
  using assms
  by (simp add: semanticSQLExecute_def await_def try_catch_def resolve_def)

lemma semanticSQLExecute_generated:
  assumes "supplied st = None"
      and "getDatabaseSchema w = (t1, Inr ds)"
      and "findSimilarTables w query = (t2, Inr ts)"
      and "findSimilarColumns w query = (t3, Inr cs)"
      and "cs \<noteq> []"
      and "generateSQLWithClaude w query ts cs ds = (t4, Inr generatedSQL)"
  shows "semanticSQLExecute w query st =
           (t1 @ t2 @ t3 @ t4 @ [Statement generatedSQL],
            case run_statement w generatedSQL of
              Inl e \<Rightarrow>
                Inr \<lparr>results = [], similarTables = Some ts, similarColumns = Some cs,
                     executedQuery = None,
                     error = Some (''Error executing generated SQL: '' @ e),
                     generatedQuery = Some generatedSQL\<rparr>
            | Inr rows \<Rightarrow>
                Inr \<lparr>results = rows, similarTables = Some ts, similarColumns = Some cs,
                     executedQuery = Some generatedSQL, error = None, generatedQuery = None\<rparr>)"
  using assms
  by (simp add: semanticSQLExecute_def await_def try_catch_def external_def resolve_def
        split: sum.splits)

lemma semanticSQLExecute_generation_fails:
  assumes "supplied st = None"
      and "getDatabaseSchema w = (t1, Inr ds)"
      and "findSimilarTables w query = (t2, Inr ts)"
      and "findSimilarColumns w query = (t3, Inr cs)"
      and "cs \<noteq> []"
      and "generateSQLWithClaude w query ts cs ds = (t4, Inl e)"
  shows "semanticSQLExecute w query st =
           (t1 @ t2 @ t3 @ t4,
            Inr \<lparr>results = [], similarTables = None, similarColumns = None,
                 executedQuery = None, error = Some e, generatedQuery = None\<rparr>)"
  using assms
  by (simp add: semanticSQLExecute_def await_def try_catch_def resolve_def)

lemma semanticSQLExecute_runs_generated:
  assumes "supplied st = None"
      and "outcome (getDatabaseSchema w) = Inr ds"
      and "outcome (findSimilarTables w query) = Inr ts"
      and "outcome (findSimilarColumns w query) = Inr cs"
      and "cs \<noteq> []"
      and "assemble cs ds = Inr groups"
      and "messages_create w (prompt query groups) = Inr reply"
  shows "filter is_statement (calls (semanticSQLExecute w query st)) = [Statement (trim reply)]"
    and "filter is_completion (calls (semanticSQLExecute w query st)) = [Completion (prompt query groups)]"
    and "outcome (semanticSQLExecute w query st) =
           (case run_statement w (trim reply) of
              Inl e \<Rightarrow>
                Inr \<lparr>results = [], similarTables = Some ts, similarColumns = Some cs,
                     executedQuery = None,
                     error = Some (''Error executing generated SQL: '' @ e),
                     generatedQuery = Some (trim reply)\<rparr>
            | Inr rows \<Rightarrow>
                Inr \<lparr>results = rows, similarTables = Some ts, similarColumns = Some cs,
                     executedQuery = Some (trim reply), error = None, generatedQuery = None\<rparr>)"
proof -
  from getDatabaseSchema_settles obtain t1 ds' where
    g: "getDatabaseSchema w = (t1, Inr ds')"
    and g1: "filter is_statement t1 = []" "filter is_completion t1 = []" by blast
  from findSimilarTables_settles obtain t2 ts' where
    t: "findSimilarTables w query = (Embedding query # t2, Inr ts')"
    and t1: "filter is_statement t2 = []" "filter is_completion t2 = []" by blast
  from findSimilarColumns_settles obtain t3 cs' where
    c: "findSimilarColumns w query = (Embedding query # t3, Inr cs')"
    and c1: "filter is_statement t3 = []" "filter is_completion t3 = []" by blast
  from g t c assms(2,3,4) have eq: "ds' = ds" "ts' = ts" "cs' = cs"
    by (simp_all add: outcome_def)
  note gen = generateSQLWithClaude_returns [OF assms(6,7), of ts]
  note ex = semanticSQLExecute_generated [OF assms(1) g [unfolded eq] t [unfolded eq] c [unfolded eq] assms(5) gen]
  show "filter is_statement (calls (semanticSQLExecute w query st)) = [Statement (trim reply)]"
    using ex g1 t1 c1 by (simp add: calls_def)
  show "filter is_completion (calls (semanticSQLExecute w query st)) = [Completion (prompt query groups)]"
    using ex g1 t1 c1 by (simp add: calls_def)
  show "outcome (semanticSQLExecute w query st) =
           (case run_statement w (trim reply) of
              Inl e \<Rightarrow>
                Inr \<lparr>results = [], similarTables = Some ts, similarColumns = Some cs,
                     executedQuery = None,
                     error = Some (''Error executing generated SQL: '' @ e),
                     generatedQuery = Some (trim reply)\<rparr>
            | Inr rows \<Rightarrow>
                Inr \<lparr>results = rows, similarTables = Some ts, similarColumns = Some cs,
                     executedQuery = Some (trim reply), error = None, generatedQuery = None\<rparr>)"
    using ex by (simp add: outcome_def)
qed

lemma semanticSQLExecute_never_throws:
  "\<exists>envelope. outcome (semanticSQLExecute w query st) = Inr envelope"
proof -
  from getDatabaseSchema_settles obtain t1 ds where
    g: "getDatabaseSchema w = (t1, Inr ds)" by blast
  from findSimilarTables_settles obtain t2 ts where
    t: "findSimilarTables w query = (Embedding query # t2, Inr ts)" by blast
  from findSimilarColumns_settles obtain t3 cs where
    c: "findSimilarColumns w query = (Embedding query # t3, Inr cs)" by blast
  show ?thesis
  proof (cases "supplied st")
    case (Some s)
    from semanticSQLExecute_direct [OF Some g t c] show ?thesis
      by (simp add: outcome_def split: sum.splits)
  next
    case None
    show ?thesis
    proof (cases "cs = []")
      case True
      with semanticSQLExecute_no_columns [OF None g t] c show ?thesis
        by (simp add: outcome_def)
    next
      case False
      obtain t4 r where gen: "generateSQLWithClaude w query ts cs ds = (t4, r)"
        by (cases "generateSQLWithClaude w query ts cs ds")
      show ?thesis
      proof (cases r)
        case (Inl e)
        with semanticSQLExecute_generation_fails [OF None g t c False] gen show ?thesis
          by (simp add: outcome_def)
      next
        case (Inr sql)
        with semanticSQLExecute_generated [OF None g t c False] gen show ?thesis
          by (simp add: outcome_def split: sum.splits)
      qed
    qed
  qed
qed

lemma trim_literals:
  "trim ''SELECT * FROM customers;'' = ''SELECT * FROM customers;''"
  "trim ''DELETE FROM orders;'' = ''DELETE FROM orders;''"
  "trim ''SELECT 1; DROP TABLE customers;'' \<noteq> []"
  "trim ''SELECT product_name FROM products WHERE price > 100;'' \<noteq> []"
  "trim ''SELECT * FROM missing;'' \<noteq> []"
  "trim ''SELECT email FROM clients;'' \<noteq> []"
  "trim ''   '' = []"
  by (simp_all add: trim_def js_whitespace_def)

lemma shop_columns_ranked:
  "query \<noteq> ''outage'' \<Longrightarrow>
   outcome (findSimilarColumns shop query) = Inr shop_ranked_columns"
  "query \<noteq> ''outage'' \<Longrightarrow>
   outcome (findSimilarColumns shop_delete query) = Inr shop_ranked_columns"
  by (simp_all add: findSimilarColumns_def generateEmbedding_def try_catch_def await_def
      external_def resolve_def outcome_def shop_delete_def shop_def shop_columns_def
      pg_rank_columns_def order_by_desc_def select_column_def similarity_to_def
      shop_ranked_columns_def arrange_Nil unit_cosine_distance_def dot_def)

lemma shop_groups:
  "\<exists>groups. assemble shop_ranked_columns ds = Inr groups"
proof -
  have "\<forall>c \<in> set shop_ranked_columns. rc_table_name c \<notin> set Object_prototype_names"
    by (simp add: shop_ranked_columns_def shop_columns_def select_column_def
          Object_prototype_names_def)
  from group_columns_succeeds [OF this, of ds] show ?thesis
    by (auto simp: assemble_def)
qed

lemma shop_ranked_columns_nonempty: "shop_ranked_columns \<noteq> []"
  by (simp add: shop_ranked_columns_def)

lemma outcome_getDatabaseSchema: "\<exists>ds. outcome (getDatabaseSchema w) = Inr ds"
  using getDatabaseSchema_settles [of w] by (auto simp: outcome_def)

lemma outcome_findSimilarTables: "\<exists>ts. outcome (findSimilarTables w query) = Inr ts"
  using findSimilarTables_settles [of w query] by (auto simp: outcome_def)

lemma outcome_findSimilarColumns: "\<exists>cs. outcome (findSimilarColumns w query) = Inr cs"
  using findSimilarColumns_settles [of w query] by (auto simp: outcome_def)

section \<open>The orchestrator: properties\<close>

text \<open>
  C5. When no direct statement is supplied (the parameter is absent, empty or blank) and the
  column ranking returns no column, \<open>semanticSQLExecute\<close> returns the envelope with the
  error \<open>Could not determine which data to query.\<close>, with the ranked tables and the
  empty column list, and its run contains no call of the completion service and no call of
  the executor.
\<close>

theorem no_columns_no_synthesis:
  assumes "supplied sqlStatement = None"
      and "outcome (findSimilarColumns w query) = Inr []"
  shows "\<exists>ts. outcome (findSimilarTables w query) = Inr ts
            \<and> outcome (semanticSQLExecute w query sqlStatement) =
                Inr \<lparr>results = [], similarTables = Some ts, similarColumns = Some [],
                     executedQuery = None,
                     error = Some ''Could not determine which data to query.'',
                     generatedQuery = None\<rparr>
            \<and> filter is_completion (calls (semanticSQLExecute w query sqlStatement)) = []
            \<and> filter is_statement (calls (semanticSQLExecute w query sqlStatement)) = []"
proof -
  from getDatabaseSchema_settles obtain t1 ds where
    g: "getDatabaseSchema w = (t1, Inr ds)"
    and g1: "filter is_statement t1 = []" "filter is_completion t1 = []" by blast
  from findSimilarTables_settles obtain t2 ts where
    t: "findSimilarTables w query = (Embedding query # t2, Inr ts)"
    and t1: "filter is_statement t2 = []" "filter is_completion t2 = []" by blast
  from findSimilarColumns_settles obtain t3 cs where
    c: "findSimilarColumns w query = (Embedding query # t3, Inr cs)"
    and c1: "filter is_statement t3 = []" "filter is_completion t3 = []" by blast
  from c assms(2) have "cs = []" by (simp add: outcome_def)
  with c have c': "findSimilarColumns w query = (Embedding query # t3, Inr [])" by simp
  from semanticSQLExecute_no_columns [OF assms(1) g t c'] g1 t1 c1 t
  show ?thesis by (simp add: outcome_def calls_def)
qed

theorem no_columns_no_synthesis_witness:
  "supplied None = None
   \<and> outcome (findSimilarColumns shop ''outage'') = Inr []
   \<and> (\<exists>ts. outcome (semanticSQLExecute shop ''outage'' None) =
         Inr \<lparr>results = [], similarTables = Some ts, similarColumns = Some [],
              executedQuery = None,
              error = Some ''Could not determine which data to query.'',
              generatedQuery = None\<rparr>)
   \<and> filter is_completion (calls (semanticSQLExecute shop ''outage'' None)) = []
   \<and> filter is_statement (calls (semanticSQLExecute shop ''outage'' None)) = []"
proof -
  have s0: "supplied None = None" by (simp add: supplied_def)
  have c: "outcome (findSimilarColumns shop ''outage'') = Inr []"
    by (simp add: findSimilarColumns_def generateEmbedding_def try_catch_def await_def
          external_def resolve_def outcome_def shop_def)
  from no_columns_no_synthesis [OF s0 c] s0 c show ?thesis by blast
qed

text \<open>
  C4 (as the code has it). When a direct statement is supplied whose text is not blank,
  \<open>semanticSQLExecute\<close> first loads the schema and runs both rankings (each embeds the
  query), never calls the completion service, and sends exactly one statement to the store,
  the supplied one, unchanged. When the store executes it, the returned envelope carries the
  rows, the ranked tables, the ranked columns and the supplied statement as
  \<open>executedQuery\<close>.
\<close>

theorem direct_statement_bypasses_synthesis:
  assumes "sqlStatement = Some s" and "trim s \<noteq> []"
  shows "calls (semanticSQLExecute w query sqlStatement) =
           calls (getDatabaseSchema w) @ calls (findSimilarTables w query)
           @ calls (findSimilarColumns w query) @ [Statement s]
       \<and> Embedding query \<in> set (calls (findSimilarTables w query))
       \<and> Embedding query \<in> set (calls (findSimilarColumns w query))
       \<and> filter is_completion (calls (semanticSQLExecute w query sqlStatement)) = []
       \<and> filter is_statement (calls (semanticSQLExecute w query sqlStatement)) = [Statement s]
       \<and> (\<forall>rows. run_statement w s = Inr rows \<longrightarrow>
            (\<exists>ts cs. outcome (findSimilarTables w query) = Inr ts
                   \<and> outcome (findSimilarColumns w query) = Inr cs
                   \<and> outcome (semanticSQLExecute w query sqlStatement) =
                       Inr \<lparr>results = rows, similarTables = Some ts, similarColumns = Some cs,
                            executedQuery = Some s, error = None, generatedQuery = None\<rparr>))"
proof -
  from assms have su: "supplied sqlStatement = Some s" by (simp add: supplied_Some)
  from getDatabaseSchema_settles obtain t1 ds where
    g: "getDatabaseSchema w = (t1, Inr ds)"
    and g1: "filter is_statement t1 = []" "filter is_completion t1 = []" by blast
  from findSimilarTables_settles obtain t2 ts where
    t: "findSimilarTables w query = (Embedding query # t2, Inr ts)"
    and t1: "filter is_statement t2 = []" "filter is_completion t2 = []" by blast
  from findSimilarColumns_settles obtain t3 cs where
    c: "findSimilarColumns w query = (Embedding query # t3, Inr cs)"
    and c1: "filter is_statement t3 = []" "filter is_completion t3 = []" by blast
  note ex = semanticSQLExecute_direct [OF su g t c]
  have A: "calls (semanticSQLExecute w query sqlStatement) =
           calls (getDatabaseSchema w) @ calls (findSimilarTables w query)
           @ calls (findSimilarColumns w query) @ [Statement s]"
    using ex g t c by (simp add: calls_def)
  have B: "Embedding query \<in> set (calls (findSimilarTables w query))"
          "Embedding query \<in> set (calls (findSimilarColumns w query))"
    using t c by (simp_all add: calls_def)
  have C: "filter is_completion (calls (semanticSQLExecute w query sqlStatement)) = []"
    using ex g1 t1 c1 by (simp add: calls_def)
  have D: "filter is_statement (calls (semanticSQLExecute w query sqlStatement)) = [Statement s]"
    using ex g1 t1 c1 by (simp add: calls_def)
  have E: "\<exists>ts cs. outcome (findSimilarTables w query) = Inr ts
                   \<and> outcome (findSimilarColumns w query) = Inr cs
                   \<and> outcome (semanticSQLExecute w query sqlStatement) =
                       Inr \<lparr>results = rows, similarTables = Some ts, similarColumns = Some cs,
                            executedQuery = Some s, error = None, generatedQuery = None\<rparr>"
    if "run_statement w s = Inr rows" for rows
    using ex t c that by (simp add: outcome_def)
  from A B C D E show ?thesis by blast
qed

theorem direct_statement_bypasses_synthesis_witness:
  "trim ''SELECT product_name FROM products WHERE price > 100;'' \<noteq> []
   \<and> run_statement shop ''SELECT product_name FROM products WHERE price > 100;''
        = Inr [[(''product_name'', ''Laptop Pro X'')], [(''product_name'', ''Ergonomic Office Chair'')]]
   \<and> filter is_completion
        (calls (semanticSQLExecute shop ''expensive products''
                  (Some ''SELECT product_name FROM products WHERE price > 100;''))) = []
   \<and> filter is_statement
        (calls (semanticSQLExecute shop ''expensive products''
                  (Some ''SELECT product_name FROM products WHERE price > 100;'')))
        = [Statement ''SELECT product_name FROM products WHERE price > 100;'']
   \<and> (\<exists>ts cs. outcome (semanticSQLExecute shop ''expensive products''
                  (Some ''SELECT product_name FROM products WHERE price > 100;''))
        = Inr \<lparr>results = [[(''product_name'', ''Laptop Pro X'')],
                           [(''product_name'', ''Ergonomic Office Chair'')]],
               similarTables = Some ts, similarColumns = Some cs,
               executedQuery = Some ''SELECT product_name FROM products WHERE price > 100;'',
               error = None, generatedQuery = None\<rparr>)"
proof -
  let ?s = "''SELECT product_name FROM products WHERE price > 100;''"
  have t: "trim ?s \<noteq> []" by (rule trim_literals)
  have r: "run_statement shop ?s
        = Inr [[(''product_name'', ''Laptop Pro X'')], [(''product_name'', ''Ergonomic Office Chair'')]]"
    by (simp add: shop_def shop_answers_def)
  from direct_statement_bypasses_synthesis [OF refl t, of shop "''expensive products''"] t r
  show ?thesis by blast
qed

text \<open>
  A supplied statement made of blanks is treated as no statement: the completion service is
  called and its statement is executed. A supplied statement that the store rejects comes
  back in an envelope without the ranked tables and columns.
\<close>

theorem blank_or_failing_direct_statement:
  "filter is_completion
     (calls (semanticSQLExecute shop ''show me all customers'' (Some ''   ''))) \<noteq> []
   \<and> filter is_statement
     (calls (semanticSQLExecute shop ''show me all customers'' (Some ''   '')))
       = [Statement ''SELECT * FROM customers;'']
   \<and> outcome (semanticSQLExecute shop ''show me all customers'' (Some ''SELECT email FROM clients;''))
       = Inr \<lparr>results = [], similarTables = None, similarColumns = None, executedQuery = None,
              error = Some ''syntax error or missing relation'', generatedQuery = None\<rparr>"
proof -
  let ?q = "''show me all customers''"
  obtain ds where ds: "outcome (getDatabaseSchema shop) = Inr ds"
    using outcome_getDatabaseSchema by blast
  obtain ts where ts: "outcome (findSimilarTables shop ?q) = Inr ts"
    using outcome_findSimilarTables by blast
  have cs: "outcome (findSimilarColumns shop ?q) = Inr shop_ranked_columns"
    by (rule shop_columns_ranked) simp
  obtain groups where gr: "assemble shop_ranked_columns ds = Inr groups"
    using shop_groups by blast
  have m: "messages_create shop (prompt ?q groups) = Inr ''SELECT * FROM customers;''"
    by (simp add: shop_def)
  have s0: "supplied (Some ''   '') = None" by (simp add: supplied_def trim_literals)
  note gen = semanticSQLExecute_runs_generated [OF s0 ds ts cs shop_ranked_columns_nonempty gr m]
  have A: "filter is_completion (calls (semanticSQLExecute shop ?q (Some ''   ''))) \<noteq> []"
    using gen(2) by simp
  have B: "filter is_statement (calls (semanticSQLExecute shop ?q (Some ''   '')))
             = [Statement ''SELECT * FROM customers;'']"
    using gen(1) by (simp add: trim_literals)
  let ?s = "''SELECT email FROM clients;''"
  obtain t1 ds' where g: "getDatabaseSchema shop = (t1, Inr ds')"
    using getDatabaseSchema_settles by blast
  obtain t2 ts' where t: "findSimilarTables shop ?q = (Embedding ?q # t2, Inr ts')"
    using findSimilarTables_settles by blast
  obtain t3 cs' where c: "findSimilarColumns shop ?q = (Embedding ?q # t3, Inr cs')"
    using findSimilarColumns_settles by blast
  have su: "supplied (Some ?s) = Some ?s"
    by (rule supplied_Some) (rule trim_literals)
  have r2: "run_statement shop ?s = Inl ''syntax error or missing relation''"
    by (simp add: shop_def shop_answers_def)
  from semanticSQLExecute_direct [OF su g t c] r2
  have C: "outcome (semanticSQLExecute shop ?q (Some ?s))
       = Inr \<lparr>results = [], similarTables = None, similarColumns = None, executedQuery = None,
              error = Some ''syntax error or missing relation'', generatedQuery = None\<rparr>"
    by (simp add: outcome_def)
  from A B C show ?thesis by simp
qed

text \<open>
  C1. No statement is inspected before it is executed. With a completion service that
  answers \<open>DELETE FROM orders;\<close>, the executor is called on that statement and the
  envelope reports it as \<open>executedQuery\<close>; a direct
  \<open>SELECT 1; DROP TABLE customers;\<close> is sent to the store as it is.
\<close>

theorem destructive_statements_reach_the_store:
  "filter is_statement (calls (semanticSQLExecute shop_delete ''remove all orders'' None))
     = [Statement ''DELETE FROM orders;'']
   \<and> map_sum id executedQuery (outcome (semanticSQLExecute shop_delete ''remove all orders'' None))
     = Inr (Some ''DELETE FROM orders;'')
   \<and> filter is_statement
        (calls (semanticSQLExecute shop ''show me all customers''
                  (Some ''SELECT 1; DROP TABLE customers;'')))
     = [Statement ''SELECT 1; DROP TABLE customers;'']
   \<and> map_sum id executedQuery
        (outcome (semanticSQLExecute shop ''show me all customers''
                    (Some ''SELECT 1; DROP TABLE customers;'')))
     = Inr (Some ''SELECT 1; DROP TABLE customers;'')"
proof -
  let ?q = "''remove all orders''"
  obtain ds where ds: "outcome (getDatabaseSchema shop_delete) = Inr ds"
    using outcome_getDatabaseSchema by blast
  obtain ts where ts: "outcome (findSimilarTables shop_delete ?q) = Inr ts"
    using outcome_findSimilarTables by blast
  have cs: "outcome (findSimilarColumns shop_delete ?q) = Inr shop_ranked_columns"
    by (rule shop_columns_ranked) simp
  obtain groups where gr: "assemble shop_ranked_columns ds = Inr groups"
    using shop_groups by blast
  have m: "messages_create shop_delete (prompt ?q groups) = Inr ''DELETE FROM orders;''"
    by (simp add: shop_delete_def)
  have s0: "supplied None = None" by (simp add: supplied_def)
  note gen = semanticSQLExecute_runs_generated [OF s0 ds ts cs shop_ranked_columns_nonempty gr m]
  have r: "run_statement shop_delete ''DELETE FROM orders;'' = Inr []"
    by (simp add: shop_delete_def shop_def shop_answers_def)
  have A: "filter is_statement (calls (semanticSQLExecute shop_delete ?q None))
             = [Statement ''DELETE FROM orders;'']"
    using gen(1) by (simp add: trim_literals)
  have B: "map_sum id executedQuery (outcome (semanticSQLExecute shop_delete ?q None))
             = Inr (Some ''DELETE FROM orders;'')"
    using gen(3) r by (simp add: trim_literals)
  let ?s = "''SELECT 1; DROP TABLE customers;''"
  let ?p = "''show me all customers''"
  obtain t1 ds' where g: "getDatabaseSchema shop = (t1, Inr ds')"
    and g1: "filter is_statement t1 = []" using getDatabaseSchema_settles by blast
  obtain t2 ts' where t: "findSimilarTables shop ?p = (Embedding ?p # t2, Inr ts')"
    and t1: "filter is_statement t2 = []" using findSimilarTables_settles by blast
  obtain t3 cs' where c: "findSimilarColumns shop ?p = (Embedding ?p # t3, Inr cs')"
    and c1: "filter is_statement t3 = []" using findSimilarColumns_settles by blast
  have su: "supplied (Some ?s) = Some ?s"
    by (rule supplied_Some) (rule trim_literals)
  have r2: "run_statement shop ?s = Inr []"
    by (simp add: shop_def shop_answers_def)
  note dir = semanticSQLExecute_direct [OF su g t c]
  have C: "filter is_statement (calls (semanticSQLExecute shop ?p (Some ?s))) = [Statement ?s]"
    using dir g1 t1 c1 by (simp add: calls_def)
  have D: "map_sum id executedQuery (outcome (semanticSQLExecute shop ?p (Some ?s))) = Inr (Some ?s)"
    using dir r2 by (simp add: outcome_def)
  from A B C D show ?thesis by simp
qed

text \<open>
  C9. A direct statement that the store rejects is reported with the store's message only:
  the envelope does not carry the statement, under \<open>executedQuery\<close> or under
  \<open>generatedQuery\<close>, and it does not carry the ranked tables and columns. (For a generated
  statement, \<open>semanticSQLExecute_runs_generated\<close> shows the envelope with the statement,
  the message and the rankings; \<open>semanticSQLExecute_never_throws\<close> shows that the
  orchestrator always returns an envelope.)
\<close>

theorem failed_direct_statement_is_not_reported:
  "filter is_statement
     (calls (semanticSQLExecute shop ''show me all customers'' (Some ''SELECT * FROM missing;'')))
     = [Statement ''SELECT * FROM missing;'']
   \<and> run_statement shop ''SELECT * FROM missing;'' = Inl ''syntax error or missing relation''
   \<and> outcome (semanticSQLExecute shop ''show me all customers'' (Some ''SELECT * FROM missing;''))
       = Inr \<lparr>results = [], similarTables = None, similarColumns = None, executedQuery = None,
              error = Some ''syntax error or missing relation'', generatedQuery = None\<rparr>"
proof -
  let ?q = "''show me all customers''"
  let ?s = "''SELECT * FROM missing;''"
  obtain t1 ds' where g: "getDatabaseSchema shop = (t1, Inr ds')"
    and g1: "filter is_statement t1 = []" using getDatabaseSchema_settles by blast
  obtain t2 ts' where t: "findSimilarTables shop ?q = (Embedding ?q # t2, Inr ts')"
    and t1: "filter is_statement t2 = []" using findSimilarTables_settles by blast
  obtain t3 cs' where c: "findSimilarColumns shop ?q = (Embedding ?q # t3, Inr cs')"
    and c1: "filter is_statement t3 = []" using findSimilarColumns_settles by blast
  have su: "supplied (Some ?s) = Some ?s"
    by (rule supplied_Some) (rule trim_literals)
  have r2: "run_statement shop ?s = Inl ''syntax error or missing relation''"
    by (simp add: shop_def shop_answers_def)
  note dir = semanticSQLExecute_direct [OF su g t c]
  have A: "filter is_statement (calls (semanticSQLExecute shop ?q (Some ?s))) = [Statement ?s]"
    using dir g1 t1 c1 by (simp add: calls_def)
  have C: "outcome (semanticSQLExecute shop ?q (Some ?s))
       = Inr \<lparr>results = [], similarTables = None, similarColumns = None, executedQuery = None,
              error = Some ''syntax error or missing relation'', generatedQuery = None\<rparr>"
    using dir r2 by (simp add: outcome_def)
  from A r2 C show ?thesis by simp
qed

section \<open>The variant without a completion service\<close>

lemma Index_semanticSQLExecute_generated:
  assumes "supplied st = None"
      and "Index_findSimilarColumns w query = (t, Inr (topColumn # others))"
  shows "Index_semanticSQLExecute w query st =
           (t @ [Statement (''SELECT * FROM '' @ irc_table_name topColumn @ '' LIMIT 10;'')],
            case run_statement w (''SELECT * FROM '' @ irc_table_name topColumn @ '' LIMIT 10;'') of
              Inl e \<Rightarrow>
                Inr \<lparr>results = [], similarTables = None, similarColumns = None,
                     executedQuery = None, error = Some e, generatedQuery = None\<rparr>
            | Inr rows \<Rightarrow>
                Inr \<lparr>results = rows, similarTables = None,
                     similarColumns = Some (topColumn # others),
                     executedQuery = Some (''SELECT * FROM '' @ irc_table_name topColumn @ '' LIMIT 10;''),
                     error = None, generatedQuery = None\<rparr>)"
  using assms
  by (simp add: Index_semanticSQLExecute_def await_def try_catch_def external_def resolve_def
        Let_def split: sum.splits)

text \<open>
  C10. In \<open>src/Index.js\<close>, when no direct statement is supplied and the column ranking is
  not empty, the one statement sent to the store is \<open>SELECT * FROM <t> LIMIT 10;\<close> with
  \<open><t>\<close> the table of the first ranked column, whatever the other ranked columns are;
  when the store executes it, the envelope reports it as \<open>executedQuery\<close>.
\<close>

theorem Index_selects_from_top_table:
  assumes "supplied sqlStatement = None"
      and "outcome (Index_findSimilarColumns w query) = Inr (topColumn # others)"
  shows "filter is_statement (calls (Index_semanticSQLExecute w query sqlStatement))
           = [Statement (''SELECT * FROM '' @ irc_table_name topColumn @ '' LIMIT 10;'')]
       \<and> (\<forall>rows. run_statement w (''SELECT * FROM '' @ irc_table_name topColumn @ '' LIMIT 10;'')
                    = Inr rows \<longrightarrow>
             outcome (Index_semanticSQLExecute w query sqlStatement) =
               Inr \<lparr>results = rows, similarTables = None,
                    similarColumns = Some (topColumn # others),
                    executedQuery = Some (''SELECT * FROM '' @ irc_table_name topColumn @ '' LIMIT 10;''),
                    error = None, generatedQuery = None\<rparr>)"
proof -
  from Index_findSimilarColumns_settles obtain t cs where
    c: "Index_findSimilarColumns w query = (Embedding query # t, Inr cs)"
    and c1: "filter is_statement t = []" by blast
  with assms(2) have c': "Index_findSimilarColumns w query = (Embedding query # t, Inr (topColumn # others))"
    by (simp add: outcome_def)
  note ex = Index_semanticSQLExecute_generated [OF assms(1) c']
  from ex c1 show ?thesis
    by (simp add: calls_def outcome_def)
qed

theorem Index_selects_from_top_table_witness:
  "supplied None = None
   \<and> (\<exists>others. outcome (Index_findSimilarColumns shop ''show me all customers'') =
         Inr (\<lparr>irc_table_name = ''customers'', irc_column_name = ''email'',
               irc_description = Some ''Primary contact email address for the customer.'',
               irc_similarity = Some (Number 1)\<rparr> # others))
   \<and> filter is_statement (calls (Index_semanticSQLExecute shop ''show me all customers'' None))
        = [Statement ''SELECT * FROM customers LIMIT 10;'']
   \<and> map_sum id executedQuery (outcome (Index_semanticSQLExecute shop ''show me all customers'' None))
        = Inr (Some ''SELECT * FROM customers LIMIT 10;'')"
proof -
  let ?top = "\<lparr>irc_table_name = ''customers'', irc_column_name = ''email'',
               irc_description = Some ''Primary contact email address for the customer.'',
               irc_similarity = Some (Number 1)\<rparr>"
  have s0: "supplied None = None" by (simp add: supplied_def)
  obtain others where c: "outcome (Index_findSimilarColumns shop ''show me all customers'') =
         Inr (?top # others)"
    by (simp add: Index_findSimilarColumns_def generateEmbedding_def try_catch_def await_def
      external_def resolve_def outcome_def shop_def shop_columns_def
      Index_pg_rank_columns_def order_by_desc_def Index_select_column_def similarity_to_def
      arrange_Nil unit_cosine_distance_def dot_def)
  have r: "run_statement shop ''SELECT * FROM customers LIMIT 10;'' = Inr [[(''first_name'', ''John'')]]"
    by (simp add: shop_def shop_answers_def)
  from Index_selects_from_top_table [OF s0 c] r
  have "filter is_statement (calls (Index_semanticSQLExecute shop ''show me all customers'' None))
        = [Statement ''SELECT * FROM customers LIMIT 10;'']"
    and "map_sum id executedQuery (outcome (Index_semanticSQLExecute shop ''show me all customers'' None))
        = Inr (Some ''SELECT * FROM customers LIMIT 10;'')"
    by simp_all
  with s0 c show ?thesis by blast
qed

end
